theory Spec2Isabelle
  imports Main
begin

section \<open>Python values and the library functions the module calls\<close>

text \<open>
  The module \<^verbatim>\<open>backend/integrations/hubspot.py\<close> works on values decoded from JSON
  (token responses, CRM records, the OAuth state). They are modelled by the datatype
  \<open>json\<close>. A Python \<^verbatim>\<open>str\<close> is a \<open>string\<close> holding its UTF-8 bytes, so that
  \<^verbatim>\<open>.encode('utf-8')\<close> is the identity. JSON numbers are integers (floating point is
  outside the model), and an object is an association list in insertion order whose
  keys are meant to be distinct.
\<close>

datatype json =
    JNull
  | JBool bool
  | JInt int
  | JStr string
  | JList "json list"
  | JObj "(string \<times> json) list"

text \<open>
  Every \<^verbatim>\<open>raise HTTPException(status_code=400, detail=...)\<close> of the source is a value
  \<open>HTTPException 400 d\<close>; the detail names the raise site (some messages embed the text
  of a caught exception, which is not modelled). The other constructors are the Python
  exceptions that the module does not catch and that therefore leave the function.
\<close>

datatype detail =
    OAuthError "string option"
  | MissingParameters
  | InvalidStateParameter
  | StateValidationFailed
  | ExchangeFailed
  | NoCredentials
  | RefreshFailed
  | MissingAccessToken
  | InvalidCredentialsFormat
  | FetchFailed

datatype exn =
    HTTPException nat detail
  | AttributeError
  | KeyError string
  | TypeError
  | ValueError
  | JSONDecodeError

record datetime =
  dt_year :: nat
  dt_month :: nat
  dt_day :: nat
  dt_hour :: nat
  dt_minute :: nat
  dt_second :: nat
  dt_microsecond :: nat

text \<open>
  A request handed to \<^verbatim>\<open>httpx.AsyncClient\<close>, as the arguments of \<^verbatim>\<open>client.post\<close> or
  \<^verbatim>\<open>client.get\<close>, and what comes back. \<open>HTTPError\<close> stands for every \<^verbatim>\<open>httpx.HTTPError\<close>,
  raised by the call itself or by \<^verbatim>\<open>raise_for_status()\<close>; \<open>BodyNotJson\<close> for a response
  whose \<^verbatim>\<open>.json()\<close> raises \<^verbatim>\<open>json.JSONDecodeError\<close>; \<open>Body v\<close> for a successful
  response whose body decodes to \<open>v\<close>.
\<close>

record http_request =
  req_verb :: string
  req_url :: string
  req_data :: "(string \<times> json) list"
  req_headers :: "(string \<times> string) list"
  req_params :: "(string \<times> json) list"

datatype http_outcome = HTTPError | BodyNotJson | Body json

text \<open>
  Everything the module obtains from outside its own code is a field of the
  environment: the standard library's JSON codec (\<open>json_loads\<close> is \<open>None\<close> where
  \<^verbatim>\<open>json.loads\<close>, or the UTF-8 decoding before it, raises), \<^verbatim>\<open>str()\<close> of a list or a
  dict, \<^verbatim>\<open>datetime.strptime\<close> (\<open>None\<close> where it raises), the value that
  \<^verbatim>\<open>secrets.token_urlsafe(32)\<close> returns, the successive readings of
  \<^verbatim>\<open>int(time.time())\<close>, and the answer of the remote server to the \<open>n\<close>-th request.
\<close>

record env =
  json_dumps :: "json \<Rightarrow> string"
  json_loads :: "string \<Rightarrow> json option"
  container_str :: "json \<Rightarrow> string"
  strptime :: "string \<Rightarrow> string \<Rightarrow> datetime option"
  token_urlsafe :: string
  clock :: "nat \<Rightarrow> int"
  http :: "nat \<Rightarrow> http_request \<Rightarrow> http_outcome"

subsection \<open>Truth value, equality, arithmetic, \<^verbatim>\<open>str()\<close>\<close>

fun truthy :: "json \<Rightarrow> bool" where
  "truthy JNull = False"
| "truthy (JBool b) = b"
| "truthy (JInt n) = (n \<noteq> 0)"
| "truthy (JStr s) = (s \<noteq> [])"
| "truthy (JList xs) = (xs \<noteq> [])"
| "truthy (JObj kvs) = (kvs \<noteq> [])"

text \<open>Python's \<^verbatim>\<open>bool\<close> is a subclass of \<^verbatim>\<open>int\<close>: \<^verbatim>\<open>True\<close> counts as 1.\<close>

fun num_of :: "json \<Rightarrow> int option" where
  "num_of (JInt n) = Some n"
| "num_of (JBool b) = Some (if b then 1 else 0)"
| "num_of _ = None"

text \<open>
  \<^verbatim>\<open>a == b\<close> on decoded JSON: numbers by value, lists element by element, dicts
  without regard to the order of their keys.
\<close>

function py_eq :: "json \<Rightarrow> json \<Rightarrow> bool"
  and py_eq_list :: "json list \<Rightarrow> json list \<Rightarrow> bool"
  and py_eq_items :: "(string \<times> json) list \<Rightarrow> (string \<times> json) list \<Rightarrow> bool"
where
  "py_eq JNull b = (b = JNull)"
| "py_eq (JBool x) b = (num_of b = Some (if x then 1 else 0))"
| "py_eq (JInt x) b = (num_of b = Some x)"
| "py_eq (JStr s) b = (b = JStr s)"
| "py_eq (JList xs) b = (case b of JList ys \<Rightarrow> py_eq_list xs ys | _ \<Rightarrow> False)"
| "py_eq (JObj kvs) b =
     (case b of JObj kvs' \<Rightarrow> length kvs = length kvs' \<and> py_eq_items kvs kvs' | _ \<Rightarrow> False)"
| "py_eq_list [] ys = (ys = [])"
| "py_eq_list (x # xs) ys =
     (case ys of [] \<Rightarrow> False | y # ys' \<Rightarrow> py_eq x y \<and> py_eq_list xs ys')"
| "py_eq_items [] d = True"
| "py_eq_items ((k, v) # kvs) d =
     (case map_of d k of None \<Rightarrow> False | Some v' \<Rightarrow> py_eq v v' \<and> py_eq_items kvs d)"
  by pat_completeness auto
termination
  by (relation "measure (\<lambda>x. case x of
        Inl (a, b) \<Rightarrow> size a
      | Inr (Inl (xs, ys)) \<Rightarrow> size_list size xs
      | Inr (Inr (kvs, d)) \<Rightarrow> size_list (size_prod (\<lambda>_. 0) size) kvs)") auto

text \<open>
  \<^verbatim>\<open>a + b\<close> and \<^verbatim>\<open>n >= b\<close> for an \<^verbatim>\<open>int\<close> \<open>n\<close>: numbers add, strings and lists
  concatenate, anything else is a \<^verbatim>\<open>TypeError\<close>; an \<^verbatim>\<open>int\<close> is ordered against numbers
  only.
\<close>

fun py_add :: "json \<Rightarrow> json \<Rightarrow> exn + json" where
  "py_add (JStr s) (JStr t) = Inr (JStr (s @ t))"
| "py_add (JList xs) (JList ys) = Inr (JList (xs @ ys))"
| "py_add a b =
     (case (num_of a, num_of b) of
        (Some x, Some y) \<Rightarrow> Inr (JInt (x + y))
      | _ \<Rightarrow> Inl TypeError)"

definition py_int_ge :: "int \<Rightarrow> json \<Rightarrow> exn + bool" where
  "py_int_ge n b = (case num_of b of Some y \<Rightarrow> Inr (n \<ge> y) | None \<Rightarrow> Inl TypeError)"

fun str_of_nat :: "nat \<Rightarrow> string" where
  "str_of_nat n =
     (if n < 10 then [char_of (48 + n)]
      else str_of_nat (n div 10) @ [char_of (48 + n mod 10)])"

definition str_of_int :: "int \<Rightarrow> string" where
  "str_of_int i = (if i < 0 then CHR ''-'' # str_of_nat (nat (- i)) else str_of_nat (nat i))"

text \<open>\<^verbatim>\<open>str(v)\<close>, which is also what an f-string field \<^verbatim>\<open>{v}\<close> inserts.\<close>

definition py_str :: "env \<Rightarrow> json \<Rightarrow> string" where
  "py_str env v =
     (case v of
        JNull \<Rightarrow> ''None''
      | JBool b \<Rightarrow> (if b then ''True'' else ''False'')
      | JInt n \<Rightarrow> str_of_int n
      | JStr s \<Rightarrow> s
      | _ \<Rightarrow> container_str env v)"

subsection \<open>Dictionaries\<close>

text \<open>
  \<^verbatim>\<open>v.get(k)\<close>, \<^verbatim>\<open>v.get(k, default)\<close>, \<^verbatim>\<open>v[k]\<close> and \<^verbatim>\<open>v[k] = x\<close>. Only a dict has
  \<^verbatim>\<open>get\<close>; on any other value the attribute lookup raises.
\<close>

definition dict_get_default :: "(string \<times> json) list \<Rightarrow> string \<Rightarrow> json \<Rightarrow> json" where
  "dict_get_default d k dflt = (case map_of d k of Some v \<Rightarrow> v | None \<Rightarrow> dflt)"

definition dict_get :: "(string \<times> json) list \<Rightarrow> string \<Rightarrow> json" where
  "dict_get d k = dict_get_default d k JNull"

definition py_get :: "json \<Rightarrow> string \<Rightarrow> exn + json" where
  "py_get v k = (case v of JObj d \<Rightarrow> Inr (dict_get d k) | _ \<Rightarrow> Inl AttributeError)"

definition py_get_default :: "json \<Rightarrow> string \<Rightarrow> json \<Rightarrow> exn + json" where
  "py_get_default v k dflt =
     (case v of JObj d \<Rightarrow> Inr (dict_get_default d k dflt) | _ \<Rightarrow> Inl AttributeError)"

definition dict_index :: "(string \<times> json) list \<Rightarrow> string \<Rightarrow> exn + json" where
  "dict_index d k = (case map_of d k of Some v \<Rightarrow> Inr v | None \<Rightarrow> Inl (KeyError k))"

fun dict_set :: "(string \<times> json) list \<Rightarrow> string \<Rightarrow> json \<Rightarrow> (string \<times> json) list" where
  "dict_set [] k x = [(k, x)]"
| "dict_set ((k', v) # d) k x = (if k' = k then (k, x) # d else (k', v) # dict_set d k x)"

text \<open>
  \<^verbatim>\<open>for x in v\<close>: a list yields its elements, a dict its keys, a string its characters
  (one-character strings; the model yields one per byte), anything else is not iterable.
\<close>

definition py_iter :: "json \<Rightarrow> exn + json list" where
  "py_iter v =
     (case v of
        JList xs \<Rightarrow> Inr xs
      | JObj d \<Rightarrow> Inr (map (\<lambda>kv. JStr (fst kv)) d)
      | JStr s \<Rightarrow> Inr (map (\<lambda>c. JStr [c]) s)
      | _ \<Rightarrow> Inl TypeError)"

subsection \<open>Strings\<close>

text \<open>
  \<^verbatim>\<open>str.strip()\<close> removes the characters for which \<^verbatim>\<open>str.isspace()\<close> holds from both
  ends. In ASCII these are U+0009 to U+000D and U+001C to U+0020. Beyond ASCII they are
  U+0085 and U+00A0 (two bytes in UTF-8) and U+1680, U+2000 to U+200A, U+2028, U+2029,
  U+202F, U+205F and U+3000 (three bytes). In well-formed UTF-8 a byte below 128 is a
  whole character and the listed sequences are whole characters wherever they stand,
  so they can be matched at the front of the text and, mirrored, at the front of the
  reversed text.
\<close>

definition py_isspace :: "char \<Rightarrow> bool" where
  "py_isspace c =
     (let n = (of_char c :: nat) in (9 \<le> n \<and> n \<le> 13) \<or> (28 \<le> n \<and> n \<le> 32))"

definition py_isspace2 :: "char \<Rightarrow> char \<Rightarrow> bool" where
  "py_isspace2 a b = (a = CHR 0xC2 \<and> (b = CHR 0x85 \<or> b = CHR 0xA0))"

definition py_isspace3 :: "char \<Rightarrow> char \<Rightarrow> char \<Rightarrow> bool" where
  "py_isspace3 a b c =
     ((a = CHR 0xE1 \<and> b = CHR 0x9A \<and> c = CHR 0x80)
      \<or> (a = CHR 0xE2 \<and> b = CHR 0x80
           \<and> ((128 \<le> (of_char c :: nat) \<and> (of_char c :: nat) \<le> 138)
                \<or> c = CHR 0xA8 \<or> c = CHR 0xA9 \<or> c = CHR 0xAF))
      \<or> (a = CHR 0xE2 \<and> b = CHR 0x81 \<and> c = CHR 0x9F)
      \<or> (a = CHR 0xE3 \<and> b = CHR 0x80 \<and> c = CHR 0x80))"

text \<open>
  Dropping the white space at the front; \<open>mirrored\<close> says that the text is read from
  its end, so that the bytes of a character come in the opposite order.
\<close>

fun drop_space :: "bool \<Rightarrow> string \<Rightarrow> string" where
  "drop_space mirrored (a # b # c # s) =
     (if py_isspace a then drop_space mirrored (b # c # s)
      else if (if mirrored then py_isspace2 b a else py_isspace2 a b)
        then drop_space mirrored (c # s)
      else if (if mirrored then py_isspace3 c b a else py_isspace3 a b c)
        then drop_space mirrored s
      else a # b # c # s)"
| "drop_space mirrored [a, b] =
     (if py_isspace a then drop_space mirrored [b]
      else if (if mirrored then py_isspace2 b a else py_isspace2 a b) then []
      else [a, b])"
| "drop_space mirrored [a] = (if py_isspace a then [] else [a])"
| "drop_space mirrored [] = []"

definition strip :: "string \<Rightarrow> string" where
  "strip s = rev (drop_space True (rev (drop_space False s)))"

text \<open>
  \<^verbatim>\<open>str.capitalize()\<close> on ASCII letters. Python also maps the case of letters beyond
  ASCII; those are several bytes each here and are left as they are.
\<close>

definition ascii_upper :: "char \<Rightarrow> char" where
  "ascii_upper c =
     (let n = (of_char c :: nat) in if 97 \<le> n \<and> n \<le> 122 then char_of (n - 32) else c)"

definition ascii_lower :: "char \<Rightarrow> char" where
  "ascii_lower c =
     (let n = (of_char c :: nat) in if 65 \<le> n \<and> n \<le> 90 then char_of (n + 32) else c)"

definition capitalize :: "string \<Rightarrow> string" where
  "capitalize s = (case s of [] \<Rightarrow> [] | c # cs \<Rightarrow> ascii_upper c # map ascii_lower cs)"

fun join :: "string \<Rightarrow> string list \<Rightarrow> string" where
  "join sep [] = []"
| "join sep [x] = x"
| "join sep (x # y # ys) = x @ sep @ join sep (y # ys)"

section \<open>The normalizer\<close>

text \<open>
  \<^verbatim>\<open>parse_hubspot_datetime\<close>: a falsy argument gives \<^verbatim>\<open>None\<close>; a value that is not a
  string has no \<^verbatim>\<open>endswith\<close>, and the \<^verbatim>\<open>AttributeError\<close> is caught by the
  \<^verbatim>\<open>except Exception\<close> like the \<^verbatim>\<open>ValueError\<close> of \<^verbatim>\<open>strptime\<close>.
\<close>

definition parse_hubspot_datetime :: "env \<Rightarrow> json \<Rightarrow> datetime option" where
  "parse_hubspot_datetime env dt_str =
     (if \<not> truthy dt_str then None
      else case dt_str of
        JStr s \<Rightarrow>
          (let s' = (if s \<noteq> [] \<and> last s = CHR ''Z'' then butlast s else s)
           in if CHR ''.'' \<in> set s'
              then strptime env s' ''%Y-%m-%dT%H:%M:%S.%f''
              else strptime env s' ''%Y-%m-%dT%H:%M:%S'')
      | _ \<Rightarrow> None)"

text \<open>
  Modelled from the spec: \<^verbatim>\<open>IntegrationItem\<close> (integrations/integration_item.py is
  not among the sources). The spec gives the item an id, a type, a display name, two
  timestamps and a url, and type-specific optional fields. The function returns the
  object's \<^verbatim>\<open>__dict__\<close> after adding the type-specific keys to it; \<open>ii_extra\<close> holds those
  keys in the order they are added. The display name is a \<open>json\<close> value because the
  source can pass a property through unconverted.
\<close>

record integration_item =
  ii_id :: string
  ii_type :: string
  ii_name :: json
  ii_creation_time :: "datetime option"
  ii_last_modified_time :: "datetime option"
  ii_url :: json
  ii_extra :: "(string \<times> json) list"

text \<open>Lines 264 to 280: the display name, by item type.\<close>

definition display_name_of :: "env \<Rightarrow> json \<Rightarrow> string \<Rightarrow> string \<Rightarrow> exn + json" where
  "display_name_of env properties item_id item_type =
     (if item_type = ''contact'' then
        (case properties of
           JObj p \<Rightarrow>
             (let name0 = strip (py_str env (dict_get_default p ''firstname'' (JStr ''''))
                                  @ '' '' @ py_str env (dict_get_default p ''lastname'' (JStr '''')));
                  name = (if name0 = [] then dict_get_default p ''email'' (JStr (''Contact '' @ item_id))
                          else JStr name0);
                  email = dict_get p ''email''
              in Inr (if truthy email
                      then JStr (py_str env name @ '' ('' @ py_str env email @ '')'')
                      else name))
         | _ \<Rightarrow> Inl AttributeError)
      else if item_type = ''company'' then
        (case properties of
           JObj p \<Rightarrow>
             (let name = dict_get_default p ''name'' (JStr (''Company '' @ item_id));
                  domain = dict_get p ''domain''
              in Inr (if truthy domain
                      then JStr (py_str env name @ '' ('' @ py_str env domain @ '')'')
                      else name))
         | _ \<Rightarrow> Inl AttributeError)
      else if item_type = ''deal'' then
        (case properties of
           JObj p \<Rightarrow>
             (let name = dict_get_default p ''dealname'' (JStr (''Deal '' @ item_id));
                  amount = dict_get p ''amount''
              in Inr (if truthy amount
                      then JStr (py_str env name @ '' ($'' @ py_str env amount @ '')'')
                      else name))
         | _ \<Rightarrow> Inl AttributeError)
      else Inr (JStr (capitalize item_type @ '' '' @ item_id)))"

text \<open>Lines 292 to 299: the keys added to the item's dict, by item type.\<close>

definition type_fields :: "json \<Rightarrow> string \<Rightarrow> exn + (string \<times> json) list" where
  "type_fields properties item_type =
     (if item_type = ''contact'' then
        (case properties of
           JObj p \<Rightarrow> Inr [(''phone'', dict_get p ''phone''), (''email'', dict_get p ''email'')]
         | _ \<Rightarrow> Inl AttributeError)
      else if item_type = ''company'' then
        (case properties of
           JObj p \<Rightarrow> Inr [(''phone'', dict_get p ''phone''), (''domain'', dict_get p ''domain'')]
         | _ \<Rightarrow> Inl AttributeError)
      else if item_type = ''deal'' then
        (case properties of
           JObj p \<Rightarrow> Inr [(''amount'', dict_get p ''amount'')]
         | _ \<Rightarrow> Inl AttributeError)
      else Inr [])"

definition create_integration_item_metadata_object ::
    "env \<Rightarrow> json \<Rightarrow> string \<Rightarrow> exn + integration_item" where
  "create_integration_item_metadata_object env item item_type =
     (case item of
        JObj d \<Rightarrow>
          (let item_id = py_str env (dict_get_default d ''id'' (JStr ''''));
               properties = dict_get_default d ''properties'' (JObj [])
           in case display_name_of env properties item_id item_type of
                Inl e \<Rightarrow> Inl e
              | Inr display_name \<Rightarrow>
                  (case type_fields properties item_type of
                     Inl e \<Rightarrow> Inl e
                   | Inr extra \<Rightarrow>
                       Inr \<lparr> ii_id = item_id @ ''_'' @ item_type,
                             ii_type = item_type,
                             ii_name = display_name,
                             ii_creation_time = parse_hubspot_datetime env (dict_get d ''createdAt''),
                             ii_last_modified_time = parse_hubspot_datetime env (dict_get d ''updatedAt''),
                             ii_url = JNull,
                             ii_extra = extra \<rparr>))
      | _ \<Rightarrow> Inl AttributeError)"

section \<open>The cache, the clock and the network\<close>

text \<open>
  The state outside the process: the cache, the requests sent so far and the number of
  clock readings taken. A cache entry keeps the value and the expiry it was written
  with; the passing of time, and with it the removal of an expired entry, is not part
  of a call.
\<close>

record world =
  redis :: "string \<rightharpoonup> string \<times> nat option"
  http_log :: "http_request list"
  ticks :: nat

text \<open>
  Modelled from the spec: \<^verbatim>\<open>add_key_value_redis\<close>, \<^verbatim>\<open>get_value_redis\<close> and
  \<^verbatim>\<open>delete_key_redis\<close> (redis_client.py is not among the sources). The spec describes
  the cache as accessed by simple get, set and delete, with a time to live on each key.
\<close>

definition add_key_value_redis :: "string \<Rightarrow> string \<Rightarrow> nat option \<Rightarrow> world \<Rightarrow> world" where
  "add_key_value_redis key v expire w = w\<lparr>redis := (redis w)(key \<mapsto> (v, expire))\<rparr>"

definition get_value_redis :: "string \<Rightarrow> world \<Rightarrow> string option" where
  "get_value_redis key w = map_option fst (redis w key)"

definition delete_key_redis :: "string \<Rightarrow> world \<Rightarrow> world" where
  "delete_key_redis key w = w\<lparr>redis := (redis w)(key := None)\<rparr>"

text \<open>\<^verbatim>\<open>int(time.time())\<close> and one request through \<^verbatim>\<open>httpx.AsyncClient\<close>.\<close>

definition read_time :: "env \<Rightarrow> world \<Rightarrow> int \<times> world" where
  "read_time env w = (clock env (ticks w), w\<lparr>ticks := Suc (ticks w)\<rparr>)"

definition http_call :: "env \<Rightarrow> http_request \<Rightarrow> world \<Rightarrow> http_outcome \<times> world" where
  "http_call env req w =
     (http env (length (http_log w)) req, w\<lparr>http_log := http_log w @ [req]\<rparr>)"

text \<open>
  The answers to the requests that were sent between two worlds, in the order of the
  requests: what a call that leads from \<open>w\<close> to \<open>w'\<close> got back from the network.
\<close>

definition answers :: "env \<Rightarrow> world \<Rightarrow> world \<Rightarrow> http_outcome list" where
  "answers env w w' =
     map (\<lambda>(i, req). http env i req)
       (enumerate (length (http_log w)) (drop (length (http_log w)) (http_log w')))"

section \<open>Base64\<close>

text \<open>
  \<^verbatim>\<open>base64.urlsafe_b64encode\<close> and \<^verbatim>\<open>base64.urlsafe_b64decode\<close> of the standard library,
  after CPython's \<^verbatim>\<open>binascii\<close> (the version whose \<^verbatim>\<open>a2b_base64\<close> has a strict mode).
  Bytes are characters; a sextet is a number below 64.
\<close>

definition table_b2a_base64 :: string where
  "table_b2a_base64 = ''ABCDEFGHIJKLMNOPQRSTUVWXYZabcdefghijklmnopqrstuvwxyz0123456789+/''"

fun b2a_base64 :: "string \<Rightarrow> string" where
  "b2a_base64 (a # b # c # rest) =
     (let x = (of_char a :: nat); y = (of_char b :: nat); z = (of_char c :: nat)
      in [table_b2a_base64 ! (x div 4),
          table_b2a_base64 ! ((x mod 4) * 16 + y div 16),
          table_b2a_base64 ! ((y mod 16) * 4 + z div 64),
          table_b2a_base64 ! (z mod 64)] @ b2a_base64 rest)"
| "b2a_base64 [a, b] =
     (let x = (of_char a :: nat); y = (of_char b :: nat)
      in [table_b2a_base64 ! (x div 4),
          table_b2a_base64 ! ((x mod 4) * 16 + y div 16),
          table_b2a_base64 ! ((y mod 16) * 4),
          CHR ''=''])"
| "b2a_base64 [a] =
     (let x = (of_char a :: nat)
      in [table_b2a_base64 ! (x div 4),
          table_b2a_base64 ! ((x mod 4) * 16),
          CHR ''='', CHR ''=''])"
| "b2a_base64 [] = []"

definition urlsafe_encode_translation :: "char \<Rightarrow> char" where
  "urlsafe_encode_translation c =
     (if c = CHR ''+'' then CHR ''-'' else if c = CHR ''/'' then CHR ''_'' else c)"

definition urlsafe_b64encode :: "string \<Rightarrow> string" where
  "urlsafe_b64encode s = map urlsafe_encode_translation (b2a_base64 s)"

fun index_of :: "'a \<Rightarrow> 'a list \<Rightarrow> nat option" where
  "index_of c [] = None"
| "index_of c (x # xs) = (if x = c then Some 0 else map_option Suc (index_of c xs))"

definition table_a2b_base64 :: "char \<Rightarrow> nat option" where
  "table_a2b_base64 c = index_of c table_b2a_base64"

text \<open>
  The decoding loop of \<^verbatim>\<open>binascii.a2b_base64\<close> outside strict mode, with its variables
  \<^verbatim>\<open>quad_pos\<close>, \<^verbatim>\<open>leftchar\<close> and \<^verbatim>\<open>pads\<close> and the bytes written so far. A character
  outside the alphabet is skipped; a pad that completes a quad ends the decoding; input
  that ends inside a quad is an error. The C code shifts and masks an
  \<^verbatim>\<open>unsigned char\<close>; as \<open>leftchar\<close> holds only the bits left over, the shifts are
  multiplications that stay below 256.
\<close>

fun a2b_base64_loop :: "nat \<Rightarrow> nat \<Rightarrow> nat \<Rightarrow> string \<Rightarrow> string \<Rightarrow> exn + string" where
  "a2b_base64_loop quad_pos leftchar pads out [] =
     (if quad_pos \<noteq> 0 then Inl ValueError else Inr out)"
| "a2b_base64_loop quad_pos leftchar pads out (c # cs) =
     (if c = CHR ''='' then
        (if quad_pos \<ge> 2 \<and> quad_pos + (pads + 1) \<ge> 4 then Inr out
         else a2b_base64_loop quad_pos leftchar (if quad_pos \<ge> 2 then pads + 1 else pads) out cs)
      else case table_a2b_base64 c of
        None \<Rightarrow> a2b_base64_loop quad_pos leftchar pads out cs
      | Some this_ch \<Rightarrow>
          (if quad_pos = 0 then a2b_base64_loop 1 this_ch 0 out cs
           else if quad_pos = 1 then
             a2b_base64_loop 2 (this_ch mod 16) 0
               (out @ [char_of (leftchar * 4 + this_ch div 16)]) cs
           else if quad_pos = 2 then
             a2b_base64_loop 3 (this_ch mod 4) 0
               (out @ [char_of (leftchar * 16 + this_ch div 4)]) cs
           else
             a2b_base64_loop 0 0 0 (out @ [char_of (leftchar * 64 + this_ch)]) cs))"

definition urlsafe_decode_translation :: "char \<Rightarrow> char" where
  "urlsafe_decode_translation c =
     (if c = CHR ''-'' then CHR ''+'' else if c = CHR ''_'' then CHR ''/'' else c)"

text \<open>
  A \<^verbatim>\<open>str\<close> argument is first encoded as ASCII, which raises \<^verbatim>\<open>ValueError\<close> on any
  other character.
\<close>

definition urlsafe_b64decode :: "string \<Rightarrow> exn + string" where
  "urlsafe_b64decode s =
     (if list_ex (\<lambda>c. (of_char c :: nat) \<ge> 128) s then Inl ValueError
      else a2b_base64_loop 0 0 0 [] (map urlsafe_decode_translation s))"

section \<open>The OAuth2 flow\<close>

definition CLIENT_ID :: string where
  "CLIENT_ID = ''''"

definition CLIENT_SECRET :: string where
  "CLIENT_SECRET = ''''"

definition REDIRECT_URI :: string where
  "REDIRECT_URI = ''''"

definition SCOPES :: "string list" where
  "SCOPES = [''crm.objects.contacts.read'', ''crm.objects.companies.read'', ''crm.objects.deals.read'']"

definition token_endpoint :: string where
  "token_endpoint = ''https://api.hubapi.com/oauth/v1/token''"

definition form_headers :: "(string \<times> string) list" where
  "form_headers = [(''Content-Type'', ''application/x-www-form-urlencoded'')]"

subsection \<open>\<^verbatim>\<open>authorize_hubspot\<close>\<close>

definition authorize_hubspot :: "env \<Rightarrow> world \<Rightarrow> string \<Rightarrow> string \<Rightarrow> string \<times> world" where
  "authorize_hubspot env w user_id org_id =
     (let state_data = JObj [(''state'', JStr (token_urlsafe env)),
                             (''user_id'', JStr user_id),
                             (''org_id'', JStr org_id)];
          encoded_state = urlsafe_b64encode (json_dumps env state_data);
          w' = add_key_value_redis (''hubspot_state:'' @ org_id @ '':'' @ user_id)
                 (json_dumps env state_data) (Some 600) w;
          auth_url = ''https://app.hubspot.com/oauth/authorize''
            @ ''?client_id='' @ CLIENT_ID
            @ ''&redirect_uri='' @ REDIRECT_URI
            @ ''&scope='' @ join '' '' SCOPES
            @ ''&state='' @ encoded_state
      in (auth_url, w'))"

subsection \<open>\<^verbatim>\<open>oauth2callback_hubspot\<close>\<close>

datatype response = HTMLResponse string

text \<open>
  The page that closes the window, with the line breaks and the indentation that the
  string literal of lines 152 to 158 has.
\<close>

definition close_window_page :: string where
  "close_window_page =
     [CHR 0x0A] @ replicate 16 (CHR '' '') @ ''<html>''
     @ [CHR 0x0A] @ replicate 20 (CHR '' '') @ ''<script>''
     @ [CHR 0x0A] @ replicate 24 (CHR '' '') @ ''window.close();''
     @ [CHR 0x0A] @ replicate 20 (CHR '' '') @ ''</script>''
     @ [CHR 0x0A] @ replicate 16 (CHR '' '') @ ''</html>''
     @ [CHR 0x0A] @ replicate 12 (CHR '' '')"

text \<open>
  Lines 101 to 109: the \<^verbatim>\<open>try\<close> block around the decoding of the state. Every
  exception in it (of Base64, of UTF-8, of JSON) becomes the same error 400.
\<close>

definition decode_state :: "env \<Rightarrow> string \<Rightarrow> json option" where
  "decode_state env encoded_state =
     (case urlsafe_b64decode encoded_state of
        Inl e \<Rightarrow> None
      | Inr bytes \<Rightarrow> json_loads env bytes)"

text \<open>Lines 122 to 164: the exchange of the code for tokens.\<close>

definition exchange_request :: "string \<Rightarrow> http_request" where
  "exchange_request code =
     \<lparr> req_verb = ''POST'', req_url = token_endpoint,
       req_data = [(''grant_type'', JStr ''authorization_code''),
                   (''client_id'', JStr CLIENT_ID),
                   (''client_secret'', JStr CLIENT_SECRET),
                   (''redirect_uri'', JStr REDIRECT_URI),
                   (''code'', JStr code)],
       req_headers = form_headers, req_params = [] \<rparr>"

definition exchange_code :: "env \<Rightarrow> world \<Rightarrow> string \<Rightarrow> string \<Rightarrow> string \<Rightarrow> (exn + response) \<times> world" where
  "exchange_code env w code state_key credentials_key =
     (case http_call env (exchange_request code) w of
        (HTTPError, w1) \<Rightarrow> (Inl (HTTPException 400 ExchangeFailed), w1)
      | (BodyNotJson, w1) \<Rightarrow> (Inl JSONDecodeError, w1)
      | (Body tokens, w1) \<Rightarrow>
          (let w2 = add_key_value_redis credentials_key (json_dumps env tokens) (Some 3600) w1;
               w3 = delete_key_redis state_key w2
           in (Inr (HTMLResponse close_window_page), w3)))"

text \<open>
  \<^verbatim>\<open>request.query_params.get(name)\<close>, on the query parameters in the order of the query
  string: Starlette keeps them in a dict built pair by pair, so that of a parameter
  given more than once the last value is the one returned; \<^verbatim>\<open>None\<close> when the
  parameter is not given.
\<close>

definition query_get :: "(string \<times> string) list \<Rightarrow> string \<Rightarrow> string option" where
  "query_get query_params name = map_of (rev query_params) name"

text \<open>The handler, on the query parameters of the request.\<close>

definition oauth2callback_hubspot ::
    "env \<Rightarrow> world \<Rightarrow> (string \<times> string) list \<Rightarrow> (exn + response) \<times> world" where
  "oauth2callback_hubspot env w query_params =
     (case query_get query_params ''error'' of
        Some (c # cs) \<Rightarrow>
          (Inl (HTTPException 400 (OAuthError (query_get query_params ''error_description''))), w)
      | _ \<Rightarrow>
        (case (query_get query_params ''code'', query_get query_params ''state'') of
           (Some (c # cs), Some (e # es)) \<Rightarrow>
             (case decode_state env (e # es) of
                None \<Rightarrow> (Inl (HTTPException 400 InvalidStateParameter), w)
              | Some state_data \<Rightarrow>
                  (case py_get state_data ''user_id'' of
                     Inl ex \<Rightarrow> (Inl ex, w)
                   | Inr user_id \<Rightarrow>
                  (case py_get state_data ''org_id'' of
                     Inl ex \<Rightarrow> (Inl ex, w)
                   | Inr org_id \<Rightarrow>
                  (let ids = py_str env org_id @ '':'' @ py_str env user_id
                   in case get_value_redis (''hubspot_state:'' @ ids) w of
                        None \<Rightarrow> (Inl (HTTPException 400 StateValidationFailed), w)
                      | Some [] \<Rightarrow> (Inl (HTTPException 400 StateValidationFailed), w)
                      | Some (s # ss) \<Rightarrow>
                          (case py_get state_data ''state'' of
                             Inl ex \<Rightarrow> (Inl ex, w)
                           | Inr nonce \<Rightarrow>
                          (case json_loads env (s # ss) of
                             None \<Rightarrow> (Inl JSONDecodeError, w)
                           | Some saved \<Rightarrow>
                          (case py_get saved ''state'' of
                             Inl ex \<Rightarrow> (Inl ex, w)
                           | Inr saved_nonce \<Rightarrow>
                               if \<not> py_eq nonce saved_nonce
                               then (Inl (HTTPException 400 StateValidationFailed), w)
                               else exchange_code env w (c # cs)
                                      (''hubspot_state:'' @ ids)
                                      (''hubspot_credentials:'' @ ids))))))))
         | _ \<Rightarrow> (Inl (HTTPException 400 MissingParameters), w)))"

subsection \<open>\<^verbatim>\<open>get_hubspot_credentials\<close>\<close>

definition refresh_request :: "json \<Rightarrow> http_request" where
  "refresh_request refresh_token =
     \<lparr> req_verb = ''POST'', req_url = token_endpoint,
       req_data = [(''grant_type'', JStr ''refresh_token''),
                   (''client_id'', JStr CLIENT_ID),
                   (''client_secret'', JStr CLIENT_SECRET),
                   (''refresh_token'', refresh_token)],
       req_headers = form_headers, req_params = [] \<rparr>"

text \<open>Lines 196 to 228: the refresh of an expired access token.\<close>

definition refresh_tokens ::
    "env \<Rightarrow> world \<Rightarrow> string \<Rightarrow> (string \<times> json) list \<Rightarrow> (exn + json) \<times> world" where
  "refresh_tokens env w key credentials =
     (case dict_index credentials ''refresh_token'' of
        Inl ex \<Rightarrow> (Inl ex, w)
      | Inr refresh_token \<Rightarrow>
          (case http_call env (refresh_request refresh_token) w of
             (HTTPError, w1) \<Rightarrow> (Inl (HTTPException 400 RefreshFailed), w1)
           | (BodyNotJson, w1) \<Rightarrow> (Inl JSONDecodeError, w1)
           | (Body new_tokens, w1) \<Rightarrow>
               (case read_time env w1 of
                  (created_at, w2) \<Rightarrow>
                    (case new_tokens of
                       JObj d \<Rightarrow>
                         (let new_tokens' = JObj (dict_set d ''created_at'' (JInt created_at));
                              w3 = add_key_value_redis key (json_dumps env new_tokens') (Some 3600) w2
                          in (Inr new_tokens', w3))
                     | _ \<Rightarrow> (Inl TypeError, w2)))))"

definition get_hubspot_credentials ::
    "env \<Rightarrow> world \<Rightarrow> string \<Rightarrow> string \<Rightarrow> (exn + json) \<times> world" where
  "get_hubspot_credentials env w user_id org_id =
     (let key = ''hubspot_credentials:'' @ org_id @ '':'' @ user_id
      in case get_value_redis key w of
        None \<Rightarrow> (Inl (HTTPException 400 NoCredentials), w)
      | Some [] \<Rightarrow> (Inl (HTTPException 400 NoCredentials), w)
      | Some (s # ss) \<Rightarrow>
          (case json_loads env (s # ss) of
             None \<Rightarrow> (Inl JSONDecodeError, w)
           | Some (JObj credentials) \<Rightarrow>
               if truthy (dict_get credentials ''expires_in'')
                  \<and> truthy (dict_get credentials ''created_at'')
               then
                 (case read_time env w of
                    (current_time, w1) \<Rightarrow>
                      (case dict_index credentials ''created_at'' of
                         Inl ex \<Rightarrow> (Inl ex, w1)
                       | Inr created_at \<Rightarrow>
                      (case dict_index credentials ''expires_in'' of
                         Inl ex \<Rightarrow> (Inl ex, w1)
                       | Inr expires_in \<Rightarrow>
                      (case py_add created_at expires_in of
                         Inl ex \<Rightarrow> (Inl ex, w1)
                       | Inr expiry \<Rightarrow>
                      (case py_int_ge current_time expiry of
                         Inl ex \<Rightarrow> (Inl ex, w1)
                       | Inr expired \<Rightarrow>
                           if expired then refresh_tokens env w1 key credentials
                           else (Inr (JObj credentials), w1))))))
               else (Inr (JObj credentials), w)
           | Some other \<Rightarrow> (Inl AttributeError, w)))"

section \<open>The item fetcher\<close>

definition list_request :: "string \<Rightarrow> (string \<times> string) list \<Rightarrow> http_request" where
  "list_request endpoint hdrs =
     \<lparr> req_verb = ''GET'', req_url = endpoint, req_data = [],
       req_headers = hdrs, req_params = [(''limit'', JInt 100)] \<rparr>"

text \<open>
  The \<^verbatim>\<open>for\<close> loops of lines 344, 358 and 372: each record is normalized and appended;
  an exception in the normalizer leaves the loop.
\<close>

fun normalize_all :: "env \<Rightarrow> string \<Rightarrow> json list \<Rightarrow> exn + integration_item list" where
  "normalize_all env item_type [] = Inr []"
| "normalize_all env item_type (x # xs) =
     (case create_integration_item_metadata_object env x item_type of
        Inl e \<Rightarrow> Inl e
      | Inr it \<Rightarrow>
          (case normalize_all env item_type xs of
             Inl e \<Rightarrow> Inl e
           | Inr its \<Rightarrow> Inr (it # its)))"

text \<open>
  What such a loop runs over: \<^verbatim>\<open>data.get('results', [])\<close> of a decoded body, as the
  \<^verbatim>\<open>for\<close> statement iterates it.
\<close>

definition result_records :: "json \<Rightarrow> exn + json list" where
  "result_records data =
     (case py_get_default data ''results'' (JList []) of
        Inl e \<Rightarrow> Inl e
      | Inr results \<Rightarrow> py_iter results)"

definition normalize_results :: "env \<Rightarrow> string \<Rightarrow> json \<Rightarrow> exn + integration_item list" where
  "normalize_results env item_type data =
     (case result_records data of
        Inl e \<Rightarrow> Inl e
      | Inr records \<Rightarrow> normalize_all env item_type records)"

text \<open>
  One of the three blocks of lines 334 to 375: the request to a list endpoint, the
  decoding of its body and the loop over its \<^verbatim>\<open>results\<close>. The exceptions are already
  mapped as the two \<^verbatim>\<open>except\<close> clauses of lines 379 to 388 map them:
  \<^verbatim>\<open>httpx.HTTPError\<close> and \<^verbatim>\<open>json.JSONDecodeError\<close> become an error 400, any other
  exception passes.
\<close>

definition fetch_objects ::
    "env \<Rightarrow> world \<Rightarrow> (string \<times> string) list \<Rightarrow> string \<Rightarrow> string
      \<Rightarrow> (exn + integration_item list) \<times> world" where
  "fetch_objects env w hdrs endpoint item_type =
     (case http_call env (list_request endpoint hdrs) w of
        (HTTPError, w1) \<Rightarrow> (Inl (HTTPException 400 FetchFailed), w1)
      | (BodyNotJson, w1) \<Rightarrow> (Inl (HTTPException 400 InvalidCredentialsFormat), w1)
      | (Body data, w1) \<Rightarrow> (normalize_results env item_type data, w1))"

definition contacts_endpoint :: string where
  "contacts_endpoint = ''https://api.hubapi.com/crm/v3/objects/contacts''"

definition companies_endpoint :: string where
  "companies_endpoint = ''https://api.hubapi.com/crm/v3/objects/companies''"

definition deals_endpoint :: string where
  "deals_endpoint = ''https://api.hubapi.com/crm/v3/objects/deals''"

definition get_items_hubspot ::
    "env \<Rightarrow> world \<Rightarrow> string \<Rightarrow> (exn + integration_item list) \<times> world" where
  "get_items_hubspot env w credentials =
     (case json_loads env credentials of
        None \<Rightarrow> (Inl (HTTPException 400 InvalidCredentialsFormat), w)
      | Some creds \<Rightarrow>
          (case py_get creds ''access_token'' of
             Inl e \<Rightarrow> (Inl e, w)
           | Inr access_token \<Rightarrow>
               if \<not> truthy access_token then (Inl (HTTPException 400 MissingAccessToken), w)
               else
                 (let hdrs = [(''Authorization'', ''Bearer '' @ py_str env access_token),
                              (''Content-Type'', ''application/json'')]
                  in case fetch_objects env w hdrs contacts_endpoint ''contact'' of
                       (Inl e, w1) \<Rightarrow> (Inl e, w1)
                     | (Inr contacts, w1) \<Rightarrow>
                  (case fetch_objects env w1 hdrs companies_endpoint ''company'' of
                       (Inl e, w2) \<Rightarrow> (Inl e, w2)
                     | (Inr companies, w2) \<Rightarrow>
                  (case fetch_objects env w2 hdrs deals_endpoint ''deal'' of
                       (Inl e, w3) \<Rightarrow> (Inl e, w3)
                     | (Inr deals, w3) \<Rightarrow> (Inr (contacts @ companies @ deals), w3))))))"

section \<open>Reading a query parameter off a URL\<close>

text \<open>
  What the receiver of the authorization URL sees as a query parameter: the text after
  the first \<open>?\<close> is cut at every \<open>&\<close>, and each piece at its first \<open>=\<close>. Percent
  escapes are not decoded.
\<close>

fun split_on :: "char \<Rightarrow> string \<Rightarrow> string list" where
  "split_on sep [] = [[]]"
| "split_on sep (x # xs) =
     (if x = sep then [] # split_on sep xs
      else case split_on sep xs of
             [] \<Rightarrow> [[x]]
           | piece # pieces \<Rightarrow> (x # piece) # pieces)"

definition key_value :: "string \<Rightarrow> string \<times> string" where
  "key_value piece =
     (takeWhile (\<lambda>c. c \<noteq> CHR ''='') piece, drop 1 (dropWhile (\<lambda>c. c \<noteq> CHR ''='') piece))"

definition query_param :: "string \<Rightarrow> string \<Rightarrow> string option" where
  "query_param name u =
     map_of (map key_value (split_on CHR ''&'' (drop 1 (dropWhile (\<lambda>c. c \<noteq> CHR ''?'') u)))) name"

section \<open>Example inputs\<close>

text \<open>
  An environment in which the library functions return nothing of interest: for
  examples that depend on none of them.
\<close>

definition plain_env :: env where
  "plain_env =
     \<lparr> json_dumps = (\<lambda>v. []), json_loads = (\<lambda>s. None), container_str = (\<lambda>v. []),
       strptime = (\<lambda>s f. None), token_urlsafe = ''nonce'', clock = (\<lambda>n. 0),
       http = (\<lambda>n r. HTTPError) \<rparr>"

text \<open>
  An environment whose JSON codec knows the documents of a table only, each with the
  value it denotes; the clock and the remote server are given.
\<close>

definition table_env ::
    "(string \<times> json) list \<Rightarrow> (nat \<Rightarrow> int) \<Rightarrow> (nat \<Rightarrow> http_request \<Rightarrow> http_outcome) \<Rightarrow> env" where
  "table_env docs clk server =
     \<lparr> json_dumps = (\<lambda>v. case find (\<lambda>d. snd d = v) docs of Some d \<Rightarrow> fst d | None \<Rightarrow> []),
       json_loads = map_of docs, container_str = (\<lambda>v. []),
       strptime = (\<lambda>s f. None), token_urlsafe = ''nonce'', clock = clk,
       http = server \<rparr>"

text \<open>A world with the given cache entries, before any request or clock reading.\<close>

definition cache_world :: "(string \<times> string \<times> nat option) list \<Rightarrow> world" where
  "cache_world entries = \<lparr> redis = map_of entries, http_log = [], ticks = 0 \<rparr>"

text \<open>
  Credential records and token responses, with their JSON texts as \<^verbatim>\<open>json.dumps\<close>
  writes them.
\<close>

definition stored_tokens :: "(string \<times> json) list" where
  "stored_tokens = [(''access_token'', JStr ''A1''), (''refresh_token'', JStr ''R1''),
                    (''expires_in'', JInt 1800), (''created_at'', JInt 1000)]"

definition stored_tokens_text :: string where
  "stored_tokens_text =
     ''{\"access_token\": \"A1\", \"refresh_token\": \"R1\", \"expires_in\": 1800, \"created_at\": 1000}''"

definition zero_lifetime_tokens :: "(string \<times> json) list" where
  "zero_lifetime_tokens = [(''access_token'', JStr ''A1''), (''refresh_token'', JStr ''R1''),
                    (''expires_in'', JInt 0), (''created_at'', JInt 1000)]"

definition zero_lifetime_text :: string where
  "zero_lifetime_text =
     ''{\"access_token\": \"A1\", \"refresh_token\": \"R1\", \"expires_in\": 0, \"created_at\": 1000}''"

definition fresh_tokens :: "(string \<times> json) list" where
  "fresh_tokens = [(''access_token'', JStr ''A2''), (''refresh_token'', JStr ''R2''),
                   (''expires_in'', JInt 1800)]"

definition issued_tokens :: "(string \<times> json) list" where
  "issued_tokens = [(''access_token'', JStr ''A1''), (''refresh_token'', JStr ''R1''),
                    (''expires_in'', JInt 1800)]"

definition issued_tokens_text :: string where
  "issued_tokens_text = ''{\"access_token\": \"A1\", \"refresh_token\": \"R1\", \"expires_in\": 1800}''"

text \<open>
  An OAuth state as \<^verbatim>\<open>authorize_hubspot\<close> stores it, the same state with one more
  field, and a state with another nonce; each with the \<^verbatim>\<open>state\<close> parameter that
  carries it.
\<close>

definition state_text :: string where
  "state_text = ''{\"state\": \"N0\", \"user_id\": \"u1\", \"org_id\": \"o1\"}''"

definition state_value :: json where
  "state_value = JObj [(''state'', JStr ''N0''), (''user_id'', JStr ''u1''), (''org_id'', JStr ''o1'')]"

definition state_parameter :: string where
  "state_parameter = ''eyJzdGF0ZSI6ICJOMCIsICJ1c2VyX2lkIjogInUxIiwgIm9yZ19pZCI6ICJvMSJ9''"

definition extended_state_text :: string where
  "extended_state_text = ''{\"state\": \"N0\", \"user_id\": \"u1\", \"org_id\": \"o1\", \"via\": \"x\"}''"

definition extended_state_value :: json where
  "extended_state_value = JObj [(''state'', JStr ''N0''), (''user_id'', JStr ''u1''),
                                (''org_id'', JStr ''o1''), (''via'', JStr ''x'')]"

definition extended_state_parameter :: string where
  "extended_state_parameter =
     ''eyJzdGF0ZSI6ICJOMCIsICJ1c2VyX2lkIjogInUxIiwgIm9yZ19pZCI6ICJvMSIsICJ2aWEiOiAieCJ9''"

definition forged_state_text :: string where
  "forged_state_text = ''{\"state\": \"N1\", \"user_id\": \"u1\", \"org_id\": \"o1\"}''"

definition forged_state_value :: json where
  "forged_state_value = JObj [(''state'', JStr ''N1''), (''user_id'', JStr ''u1''), (''org_id'', JStr ''o1'')]"

definition forged_state_parameter :: string where
  "forged_state_parameter = ''eyJzdGF0ZSI6ICJOMSIsICJ1c2VyX2lkIjogInUxIiwgIm9yZ19pZCI6ICJvMSJ9''"

definition callback_env :: env where
  "callback_env =
     table_env [(state_text, state_value), (extended_state_text, extended_state_value),
                (forged_state_text, forged_state_value), (issued_tokens_text, JObj issued_tokens)]
       (\<lambda>n. 5000 + int n) (\<lambda>n r. Body (JObj issued_tokens))"

text \<open>
  A provider whose token response carries a \<^verbatim>\<open>created_at\<close> of its own, next to
  \<^verbatim>\<open>expires_in\<close>.
\<close>

definition stamping_env :: env where
  "stamping_env =
     table_env [(state_text, state_value), (stored_tokens_text, JObj stored_tokens)]
       (\<lambda>n. 5000 + int n) (\<lambda>n r. Body (JObj stored_tokens))"

definition callback_world :: world where
  "callback_world = cache_world [(''hubspot_state:o1:u1'', state_text, Some 600)]"

text \<open>
  A CRM with two contacts, two companies and two deals, whose companies endpoint is up
  or down; the credentials that the item fetcher is called with; the six items that
  the normalizer makes of the records.
\<close>

definition crm_credentials_text :: string where
  "crm_credentials_text = ''{\"access_token\": \"A1\"}''"

definition crm_contact_records :: "json list" where
  "crm_contact_records =
     [JObj [(''id'', JStr ''1''),
            (''properties'', JObj [(''firstname'', JStr ''Ada''), (''lastname'', JStr ''Byron'')])],
      JObj [(''id'', JStr ''4''),
            (''properties'', JObj [(''firstname'', JStr ''Grace''), (''lastname'', JStr ''Hopper''),
                                   (''email'', JStr ''g@h.io'')])]]"

definition crm_company_records :: "json list" where
  "crm_company_records =
     [JObj [(''id'', JStr ''2''), (''properties'', JObj [(''name'', JStr ''Acme'')])],
      JObj [(''id'', JStr ''5''),
            (''properties'', JObj [(''name'', JStr ''Initech''), (''domain'', JStr ''initech.io'')])]]"

definition crm_deal_records :: "json list" where
  "crm_deal_records =
     [JObj [(''id'', JStr ''3''), (''properties'', JObj [(''dealname'', JStr ''Renewal'')])],
      JObj [(''id'', JStr ''6''), (''properties'', JObj [(''dealname'', JStr ''Upgrade'')])]]"

definition crm_contacts :: json where
  "crm_contacts = JObj [(''results'', JList crm_contact_records)]"

definition crm_companies :: json where
  "crm_companies = JObj [(''results'', JList crm_company_records)]"

definition crm_deals :: json where
  "crm_deals = JObj [(''results'', JList crm_deal_records)]"

definition crm_server :: "bool \<Rightarrow> nat \<Rightarrow> http_request \<Rightarrow> http_outcome" where
  "crm_server companies_up n req =
     (if req_url req = contacts_endpoint then Body crm_contacts
      else if req_url req = companies_endpoint
      then (if companies_up then Body crm_companies else HTTPError)
      else Body crm_deals)"

definition crm_env :: "bool \<Rightarrow> env" where
  "crm_env companies_up =
     table_env [(crm_credentials_text, JObj [(''access_token'', JStr ''A1'')])] (\<lambda>n. 0)
       (crm_server companies_up)"

definition crm_headers :: "(string \<times> string) list" where
  "crm_headers = [(''Authorization'', ''Bearer A1''), (''Content-Type'', ''application/json'')]"

definition contact_item :: integration_item where
  "contact_item = \<lparr> ii_id = ''1_contact'', ii_type = ''contact'', ii_name = JStr ''Ada Byron'',
       ii_creation_time = None, ii_last_modified_time = None, ii_url = JNull,
       ii_extra = [(''phone'', JNull), (''email'', JNull)] \<rparr>"

definition second_contact_item :: integration_item where
  "second_contact_item = \<lparr> ii_id = ''4_contact'', ii_type = ''contact'',
       ii_name = JStr ''Grace Hopper (g@h.io)'',
       ii_creation_time = None, ii_last_modified_time = None, ii_url = JNull,
       ii_extra = [(''phone'', JNull), (''email'', JStr ''g@h.io'')] \<rparr>"

definition company_item :: integration_item where
  "company_item = \<lparr> ii_id = ''2_company'', ii_type = ''company'', ii_name = JStr ''Acme'',
       ii_creation_time = None, ii_last_modified_time = None, ii_url = JNull,
       ii_extra = [(''phone'', JNull), (''domain'', JNull)] \<rparr>"

definition second_company_item :: integration_item where
  "second_company_item = \<lparr> ii_id = ''5_company'', ii_type = ''company'',
       ii_name = JStr ''Initech (initech.io)'',
       ii_creation_time = None, ii_last_modified_time = None, ii_url = JNull,
       ii_extra = [(''phone'', JNull), (''domain'', JStr ''initech.io'')] \<rparr>"

definition deal_item :: integration_item where
  "deal_item = \<lparr> ii_id = ''3_deal'', ii_type = ''deal'', ii_name = JStr ''Renewal'',
       ii_creation_time = None, ii_last_modified_time = None, ii_url = JNull,
       ii_extra = [(''amount'', JNull)] \<rparr>"

definition second_deal_item :: integration_item where
  "second_deal_item = \<lparr> ii_id = ''6_deal'', ii_type = ''deal'', ii_name = JStr ''Upgrade'',
       ii_creation_time = None, ii_last_modified_time = None, ii_url = JNull,
       ii_extra = [(''amount'', JNull)] \<rparr>"

section \<open>Base64 decoding undoes Base64 encoding\<close>

lemma table_length: "length table_b2a_base64 = 64"
  by (simp add: table_b2a_base64_def)

lemma table_distinct: "distinct table_b2a_base64"
  by (simp add: table_b2a_base64_def)

lemma index_of_nth: "distinct xs \<Longrightarrow> n < length xs \<Longrightarrow> index_of (xs ! n) xs = Some n"
proof (induction xs arbitrary: n)
  case Nil
  then show ?case by simp
next
  case (Cons x xs)
  show ?case
  proof (cases n)
    case 0
    then show ?thesis by simp
  next
    case (Suc m)
    with Cons.prems have "xs ! m \<in> set xs" "x \<notin> set xs" by auto
    then have "x \<noteq> xs ! m" by auto
    with Suc Cons show ?thesis by simp
  qed
qed

lemma table_a2b_b2a: "n < 64 \<Longrightarrow> table_a2b_base64 (table_b2a_base64 ! n) = Some n"
  by (simp add: table_a2b_base64_def index_of_nth table_distinct table_length)

lemma table_chars:
  "\<forall>c \<in> set table_b2a_base64. c \<noteq> CHR ''='' \<and> c \<noteq> CHR ''-'' \<and> c \<noteq> CHR ''_'' \<and> (of_char c :: nat) < 128"
  by (simp add: table_b2a_base64_def)

lemma table_nth_props:
  assumes "n < 64"
  shows "table_b2a_base64 ! n \<noteq> CHR ''=''"
    and "urlsafe_decode_translation (urlsafe_encode_translation (table_b2a_base64 ! n)) = table_b2a_base64 ! n"
    and "(of_char (urlsafe_encode_translation (table_b2a_base64 ! n)) :: nat) < 128"
proof -
  have "table_b2a_base64 ! n \<in> set table_b2a_base64"
    using assms by (simp add: table_length)
  then have p: "table_b2a_base64 ! n \<noteq> CHR ''='' \<and> table_b2a_base64 ! n \<noteq> CHR ''-''
      \<and> table_b2a_base64 ! n \<noteq> CHR ''_'' \<and> (of_char (table_b2a_base64 ! n) :: nat) < 128"
    using table_chars by blast
  show "table_b2a_base64 ! n \<noteq> CHR ''=''" using p by simp
  show "urlsafe_decode_translation (urlsafe_encode_translation (table_b2a_base64 ! n)) = table_b2a_base64 ! n"
    using p by (simp add: urlsafe_decode_translation_def urlsafe_encode_translation_def)
  show "(of_char (urlsafe_encode_translation (table_b2a_base64 ! n)) :: nat) < 128"
    using p by (simp add: urlsafe_encode_translation_def)
qed

lemma table_nth_mem: "n < 64 \<Longrightarrow> table_b2a_base64 ! n \<in> set table_b2a_base64"
  by (simp add: table_length)

lemma sextet_bounds:
  fixes x y z :: nat
  assumes "x < 256" "y < 256" "z < 256"
  shows "x div 4 < 64" and "x mod 4 * 16 + y div 16 < 64"
    and "y mod 16 * 4 + z div 64 < 64" and "z mod 64 < 64"
    and "y mod 16 * 4 < 64" and "x mod 4 * 16 < 64"
  using assms by arith+

lemma b2a_base64_chars: "\<forall>c \<in> set (b2a_base64 bs). c \<in> set table_b2a_base64 \<or> c = CHR ''=''"
proof (induction bs rule: b2a_base64.induct)
  case (1 a b c rest)
  have lt: "(of_char a :: nat) < 256" "(of_char b :: nat) < 256" "(of_char c :: nat) < 256"
    by simp_all
  note m = sextet_bounds [OF lt, THEN table_nth_mem]
  show ?case
    using 1 m by (simp add: Let_def)
next
  case (2 a b)
  have lt: "(of_char a :: nat) < 256" "(of_char b :: nat) < 256" "(0 :: nat) < 256"
    by simp_all
  note m = sextet_bounds [OF lt, THEN table_nth_mem]
  show ?case
    using m by (simp add: Let_def)
next
  case (3 a)
  have lt: "(of_char a :: nat) < 256" "(0 :: nat) < 256" "(0 :: nat) < 256"
    by simp_all
  note m = sextet_bounds [OF lt, THEN table_nth_mem]
  show ?case
    using m by (simp add: Let_def)
next
  case 4
  then show ?case by simp
qed

lemma translation_roundtrip:
  "map urlsafe_decode_translation (urlsafe_b64encode bs) = b2a_base64 bs"
proof -
  have "urlsafe_decode_translation (urlsafe_encode_translation c) = c"
    if "c \<in> set (b2a_base64 bs)" for c
  proof -
    from that b2a_base64_chars have "c \<in> set table_b2a_base64 \<or> c = CHR ''=''"
      by blast
    then have "c \<noteq> CHR ''-'' \<and> c \<noteq> CHR ''_''"
      using table_chars by auto
    then show ?thesis
      by (simp add: urlsafe_decode_translation_def urlsafe_encode_translation_def)
  qed
  then show ?thesis
    by (simp add: urlsafe_b64encode_def map_idI)
qed

lemma urlsafe_b64encode_ascii:
  "\<forall>c \<in> set (urlsafe_b64encode bs). (of_char c :: nat) < 128"
proof
  fix c assume "c \<in> set (urlsafe_b64encode bs)"
  then have "c \<in> urlsafe_encode_translation ` set (b2a_base64 bs)"
    by (simp add: urlsafe_b64encode_def)
  then obtain c0 where c0: "c0 \<in> set (b2a_base64 bs)" "c = urlsafe_encode_translation c0"
    by blast
  from c0(1) b2a_base64_chars have "c0 \<in> set table_b2a_base64 \<or> c0 = CHR ''=''"
    by blast
  then have "(of_char c0 :: nat) < 128"
  proof
    assume "c0 \<in> set table_b2a_base64"
    then show ?thesis using table_chars by blast
  next
    assume "c0 = CHR ''=''"
    then show ?thesis by simp
  qed
  then show "(of_char c :: nat) < 128"
    unfolding c0(2) urlsafe_encode_translation_def by simp
qed

lemma a2b_quad:
  assumes "s1 < 64" "s2 < 64" "s3 < 64" "s4 < 64"
  shows "a2b_base64_loop 0 l p out
           (table_b2a_base64 ! s1 # table_b2a_base64 ! s2 # table_b2a_base64 ! s3
              # table_b2a_base64 ! s4 # cs)
         = a2b_base64_loop 0 0 0
             (out @ [char_of (s1 * 4 + s2 div 16), char_of (s2 mod 16 * 16 + s3 div 4),
                     char_of (s3 mod 4 * 64 + s4)]) cs"
  using assms by (simp add: table_a2b_b2a table_nth_props(1))

lemma a2b_pad1:
  assumes "s1 < 64" "s2 < 64" "s3 < 64"
  shows "a2b_base64_loop 0 l p out
           [table_b2a_base64 ! s1, table_b2a_base64 ! s2, table_b2a_base64 ! s3, CHR ''='']
         = Inr (out @ [char_of (s1 * 4 + s2 div 16), char_of (s2 mod 16 * 16 + s3 div 4)])"
  using assms by (simp add: table_a2b_b2a table_nth_props(1))

lemma a2b_pad2:
  assumes "s1 < 64" "s2 < 64"
  shows "a2b_base64_loop 0 l p out
           [table_b2a_base64 ! s1, table_b2a_base64 ! s2, CHR ''='', CHR ''='']
         = Inr (out @ [char_of (s1 * 4 + s2 div 16)])"
  using assms by (simp add: table_a2b_b2a table_nth_props(1))

lemma div_add_small:
  fixes q r :: nat
  shows "r < n \<Longrightarrow> (q * n + r) div n = q" and "r < n \<Longrightarrow> (q * n + r) mod n = r"
  by simp_all

lemma sextets_bytes:
  fixes x y z :: nat
  assumes "x < 256" "y < 256" "z < 256"
  shows "x div 4 * 4 + (x mod 4 * 16 + y div 16) div 16 = x"
    and "(x mod 4 * 16 + y div 16) mod 16 * 16 + (y mod 16 * 4 + z div 64) div 4 = y"
    and "(y mod 16 * 4 + z div 64) mod 4 * 64 + z mod 64 = z"
    and "(x mod 4 * 16 + y div 16) mod 16 * 16 + (y mod 16 * 4) div 4 = y"
    and "x div 4 * 4 + (x mod 4 * 16) div 16 = x"
proof -
  have a: "y div 16 < 16" "z div 64 < 4"
    using assms by arith+
  show "x div 4 * 4 + (x mod 4 * 16 + y div 16) div 16 = x"
    using a by (simp add: div_add_small)
  show "(x mod 4 * 16 + y div 16) mod 16 * 16 + (y mod 16 * 4 + z div 64) div 4 = y"
    using a by (simp add: div_add_small)
  show "(y mod 16 * 4 + z div 64) mod 4 * 64 + z mod 64 = z"
    using a by (simp add: div_add_small)
  show "(x mod 4 * 16 + y div 16) mod 16 * 16 + (y mod 16 * 4) div 4 = y"
    using a by (simp add: div_add_small)
  show "x div 4 * 4 + (x mod 4 * 16) div 16 = x"
    by simp
qed

lemma a2b_b2a_base64: "a2b_base64_loop 0 0 0 out (b2a_base64 bs) = Inr (out @ bs)"
proof (induction bs arbitrary: out rule: b2a_base64.induct)
  case (1 a b c rest)
  have lt: "(of_char a :: nat) < 256" "(of_char b :: nat) < 256" "(of_char c :: nat) < 256"
    by simp_all
  note s = sextet_bounds(1-4) [OF lt]
  have "a2b_base64_loop 0 0 0 out (b2a_base64 (a # b # c # rest))
        = a2b_base64_loop 0 0 0 (out @ [a, b, c]) (b2a_base64 rest)"
    unfolding b2a_base64.simps Let_def append_Cons append_Nil a2b_quad [OF s]
      sextets_bytes(1-3) [OF lt] char_of_char ..
  then show ?case
    by (simp add: 1)
next
  case (2 a b)
  have lt: "(of_char a :: nat) < 256" "(of_char b :: nat) < 256" "(0 :: nat) < 256"
    by simp_all
  note s = sextet_bounds(1,2,5) [OF lt]
  show ?case
    unfolding b2a_base64.simps Let_def a2b_pad1 [OF s] sextets_bytes(1,4) [OF lt] char_of_char
    by simp
next
  case (3 a)
  have lt: "(of_char a :: nat) < 256" "(0 :: nat) < 256" "(0 :: nat) < 256"
    by simp_all
  note s = sextet_bounds(1,6) [OF lt]
  show ?case
    unfolding b2a_base64.simps Let_def a2b_pad2 [OF s] sextets_bytes(5) [OF lt] char_of_char
    by simp
next
  case 4
  then show ?case by simp
qed

lemma urlsafe_b64_roundtrip: "urlsafe_b64decode (urlsafe_b64encode bs) = Inr bs"
proof -
  have "\<not> list_ex (\<lambda>c. (of_char c :: nat) \<ge> 128) (urlsafe_b64encode bs)"
    using urlsafe_b64encode_ascii [of bs] by (auto simp: list_ex_iff)
  then show ?thesis
    by (simp add: urlsafe_b64decode_def translation_roundtrip a2b_b2a_base64)
qed

text \<open>
  So the decoding of lines 103 and 104 in the callback, applied to what line 51 of the
  authorizer encoded, is \<^verbatim>\<open>json.loads\<close> of the encoded text.
\<close>

lemma decode_state_encoded: "decode_state env (urlsafe_b64encode s) = json_loads env s"
  by (simp add: decode_state_def urlsafe_b64_roundtrip)

section \<open>Properties of the authorizer\<close>

lemma split_on_absent: "sep \<notin> set s \<Longrightarrow> split_on sep s = [s]"
  by (induction s) auto

lemma urlsafe_b64encode_chars:
  "c \<in> set (urlsafe_b64encode bs) \<Longrightarrow> c \<in> set table_b2a_base64 \<or> c = CHR ''='' \<or> c = CHR ''-'' \<or> c = CHR ''_''"
proof -
  assume "c \<in> set (urlsafe_b64encode bs)"
  then have "c \<in> urlsafe_encode_translation ` set (b2a_base64 bs)"
    by (simp add: urlsafe_b64encode_def)
  then obtain c0 where c0: "c0 \<in> set (b2a_base64 bs)" "c = urlsafe_encode_translation c0"
    by blast
  from c0(1) b2a_base64_chars have "c0 \<in> set table_b2a_base64 \<or> c0 = CHR ''=''"
    by blast
  then show ?thesis
    unfolding c0(2) urlsafe_encode_translation_def by auto
qed

lemma table_no_ampersand: "CHR ''&'' \<notin> set table_b2a_base64"
  by (simp add: table_b2a_base64_def)

lemma urlsafe_b64encode_no_ampersand: "CHR ''&'' \<notin> set (urlsafe_b64encode bs)"
  using urlsafe_b64encode_chars [of "CHR ''&''" bs] table_no_ampersand by auto

lemma query_param_state:
  assumes "CHR ''&'' \<notin> set enc"
  shows "query_param ''state''
     (''https://app.hubspot.com/oauth/authorize'' @ ''?client_id='' @ CLIENT_ID
        @ ''&redirect_uri='' @ REDIRECT_URI @ ''&scope='' @ join '' '' SCOPES
        @ ''&state='' @ enc) = Some enc"
  using assms
  by (simp add: query_param_def CLIENT_ID_def REDIRECT_URI_def SCOPES_def split_on_absent key_value_def)

text \<open>
  Claim C7. For every user id and organization id, \<^verbatim>\<open>authorize_hubspot\<close> returns a URL
  whose \<^verbatim>\<open>state\<close> query parameter decodes, as URL-safe Base64, to the state blob that
  the same call stored in the cache under the key \<^verbatim>\<open>hubspot_state:{org_id}:{user_id}\<close>
  with a time to live of 600 seconds; the blob is the serialization of the object that
  holds the fresh nonce, the given user id and the given organization id.
\<close>

theorem authorize_state_round_trip:
  "\<exists>encoded_state.
      query_param ''state'' (fst (authorize_hubspot env w user_id org_id)) = Some encoded_state
    \<and> urlsafe_b64decode encoded_state
        = Inr (json_dumps env (JObj [(''state'', JStr (token_urlsafe env)),
                                     (''user_id'', JStr user_id), (''org_id'', JStr org_id)]))
    \<and> redis (snd (authorize_hubspot env w user_id org_id))
          (''hubspot_state:'' @ org_id @ '':'' @ user_id)
        = Some (json_dumps env (JObj [(''state'', JStr (token_urlsafe env)),
                                      (''user_id'', JStr user_id), (''org_id'', JStr org_id)]),
                Some 600)"
proof -
  let ?blob = "json_dumps env (JObj [(''state'', JStr (token_urlsafe env)),
                                     (''user_id'', JStr user_id), (''org_id'', JStr org_id)])"
  have "query_param ''state'' (fst (authorize_hubspot env w user_id org_id))
        = Some (urlsafe_b64encode ?blob)"
    unfolding authorize_hubspot_def Let_def fst_conv
    by (rule query_param_state) (rule urlsafe_b64encode_no_ampersand)
  moreover have "urlsafe_b64decode (urlsafe_b64encode ?blob) = Inr ?blob"
    by (rule urlsafe_b64_roundtrip)
  moreover have "redis (snd (authorize_hubspot env w user_id org_id))
          (''hubspot_state:'' @ org_id @ '':'' @ user_id) = Some (?blob, Some 600)"
    by (simp add: authorize_hubspot_def Let_def add_key_value_redis_def)
  ultimately show ?thesis
    by blast
qed

section \<open>Properties of the normalizer\<close>

lemma display_name_of_obj: "\<exists>n. display_name_of env (JObj p) item_id item_type = Inr n"
  by (simp add: display_name_of_def Let_def)

lemma type_fields_obj: "\<exists>x. type_fields (JObj p) item_type = Inr x"
  by (simp add: type_fields_def)

lemma display_name_of_other:
  "item_type \<notin> {''contact'', ''company'', ''deal''}
   \<Longrightarrow> display_name_of env props item_id item_type
       = Inr (JStr (capitalize item_type @ '' '' @ item_id))"
  by (simp add: display_name_of_def)

lemma type_fields_other:
  "item_type \<notin> {''contact'', ''company'', ''deal''} \<Longrightarrow> type_fields props item_type = Inr []"
  by (simp add: type_fields_def)

text \<open>
  Claim C9. For every provider record and item type, the item that the normalizer
  produces has as its id the provider id followed by an underscore and the type, and
  its type field is the given item type. The provider id is \<^verbatim>\<open>str(item.get('id', ''))\<close>.
  The normalizer produces an item for every record that is a JSON object, as long as
  its \<^verbatim>\<open>properties\<close> are absent or an object, or the type is none of contact, company
  and deal (the properties are then not read).
\<close>

theorem normalizer_id_and_type:
  assumes "item = JObj d"
    and "(\<exists>p. dict_get_default d ''properties'' (JObj []) = JObj p)
         \<or> item_type \<notin> {''contact'', ''company'', ''deal''}"
  shows "\<exists>it. create_integration_item_metadata_object env item item_type = Inr it
           \<and> ii_id it = py_str env (dict_get_default d ''id'' (JStr '''')) @ ''_'' @ item_type
           \<and> ii_type it = item_type"
proof -
  let ?item_id = "py_str env (dict_get_default d ''id'' (JStr ''''))"
  let ?props = "dict_get_default d ''properties'' (JObj [])"
  have "\<exists>n. display_name_of env ?props ?item_id item_type = Inr n"
    using assms(2) display_name_of_obj display_name_of_other by metis
  then obtain n where n: "display_name_of env ?props ?item_id item_type = Inr n" ..
  have "\<exists>x. type_fields ?props item_type = Inr x"
    using assms(2) type_fields_obj type_fields_other by metis
  then obtain x where x: "type_fields ?props item_type = Inr x" ..
  show ?thesis
    by (simp add: assms(1) create_integration_item_metadata_object_def Let_def n x)
qed

theorem normalizer_id_and_type_witness:
  "\<exists>it. create_integration_item_metadata_object plain_env
           (JObj [(''id'', JStr ''512''), (''properties'', JObj [(''dealname'', JStr ''Renewal'')])])
           ''deal'' = Inr it
        \<and> ii_id it = ''512_deal'' \<and> ii_type it = ''deal''"
  using normalizer_id_and_type
    [of "JObj [(''id'', JStr ''512''), (''properties'', JObj [(''dealname'', JStr ''Renewal'')])]"
        "[(''id'', JStr ''512''), (''properties'', JObj [(''dealname'', JStr ''Renewal'')])]"
        "''deal''" plain_env]
  by (simp add: dict_get_default_def py_str_def)

text \<open>
  Claim C8. For every company record with no domain property (absent, null or empty),
  the display name of the item is the company name alone, with nothing appended. The
  company name is the record's \<^verbatim>\<open>name\<close> property, or \<^verbatim>\<open>Company\<close> and the provider id
  where the record has no such property.
\<close>

theorem company_without_domain:
  assumes "dict_get_default d ''properties'' (JObj []) = JObj p"
    and "\<not> truthy (dict_get p ''domain'')"
  shows "\<exists>it. create_integration_item_metadata_object env (JObj d) ''company'' = Inr it
           \<and> ii_name it = dict_get_default p ''name''
                 (JStr (''Company '' @ py_str env (dict_get_default d ''id'' (JStr ''''))))"
  using assms
  by (simp add: create_integration_item_metadata_object_def display_name_of_def
      type_fields_def Let_def)

theorem company_without_domain_witness:
  "\<exists>it. create_integration_item_metadata_object plain_env
           (JObj [(''id'', JStr ''9''), (''properties'', JObj [(''name'', JStr ''Acme'')])])
           ''company'' = Inr it
        \<and> ii_name it = JStr ''Acme''"
  using company_without_domain
    [of "[(''id'', JStr ''9''), (''properties'', JObj [(''name'', JStr ''Acme'')])]"
        "[(''name'', JStr ''Acme'')]" plain_env]
  by (simp add: dict_get_default_def dict_get_def)

text \<open>
  Claim C4. For every contact record whose \<^verbatim>\<open>firstname\<close> and \<^verbatim>\<open>lastname\<close> properties
  are empty but whose \<^verbatim>\<open>email\<close> property is present, the display name of the item is
  the email, exactly. The code does not keep to this. Line 268 takes the email as the
  name where the stripped name is empty, and line 270 then appends the email in
  parentheses to the name as it does for every contact, so the email appears twice:
  for the contact with empty names and the email \<^verbatim>\<open>a@b.c\<close> the display name is
  \<^verbatim>\<open>a@b.c (a@b.c)\<close>. Where the two names are null, as the provider sends unset
  properties, the display name is \<^verbatim>\<open>None None (a@b.c)\<close>.
\<close>

theorem contact_email_repeated:
  "create_integration_item_metadata_object plain_env
     (JObj [(''id'', JStr ''7''),
            (''properties'', JObj [(''firstname'', JStr []), (''lastname'', JStr []),
                                   (''email'', JStr ''a@b.c'')])])
     ''contact''
   = Inr \<lparr> ii_id = ''7_contact'', ii_type = ''contact'', ii_name = JStr ''a@b.c (a@b.c)'',
           ii_creation_time = None, ii_last_modified_time = None, ii_url = JNull,
           ii_extra = [(''phone'', JNull), (''email'', JStr ''a@b.c'')] \<rparr>
   \<and> JStr ''a@b.c (a@b.c)'' \<noteq> JStr ''a@b.c''
   \<and> create_integration_item_metadata_object plain_env
     (JObj [(''id'', JStr ''7''),
            (''properties'', JObj [(''firstname'', JNull), (''lastname'', JNull),
                                   (''email'', JStr ''a@b.c'')])])
     ''contact''
   = Inr \<lparr> ii_id = ''7_contact'', ii_type = ''contact'', ii_name = JStr ''None None (a@b.c)'',
           ii_creation_time = None, ii_last_modified_time = None, ii_url = JNull,
           ii_extra = [(''phone'', JNull), (''email'', JStr ''a@b.c'')] \<rparr>"
  by (simp add: create_integration_item_metadata_object_def display_name_of_def type_fields_def
      dict_get_def dict_get_default_def py_str_def parse_hubspot_datetime_def Let_def
      strip_def py_isspace_def py_isspace2_def py_isspace3_def)

section \<open>Properties of the credential accessor\<close>

lemma truthy_num: "num_of v = Some n \<Longrightarrow> truthy v = (n \<noteq> 0)"
  by (cases v) (auto split: if_splits)

lemma py_add_num: "num_of a = Some x \<Longrightarrow> num_of b = Some y \<Longrightarrow> py_add a b = Inr (JInt (x + y))"
  by (cases a; cases b) auto

lemma py_int_ge_int: "py_int_ge n (JInt y) = Inr (n \<ge> y)"
  by (simp add: py_int_ge_def)

lemma map_of_dict_set: "map_of (dict_set d k x) k = Some x"
  by (induction d) auto

lemma dict_get_Some: "map_of d k = Some v \<Longrightarrow> dict_get d k = v"
  by (simp add: dict_get_def dict_get_default_def)

lemma dict_get_None: "map_of d k = None \<Longrightarrow> dict_get d k = JNull"
  by (simp add: dict_get_def dict_get_default_def)

lemma dict_index_Some: "map_of d k = Some v \<Longrightarrow> dict_index d k = Inr v"
  by (simp add: dict_index_def)

lemma credentials_unchecked:
  assumes "get_value_redis (''hubspot_credentials:'' @ org_id @ '':'' @ user_id) w = Some blob"
    and "blob \<noteq> []"
    and "json_loads env blob = Some (JObj credentials)"
    and "\<not> (truthy (dict_get credentials ''expires_in'') \<and> truthy (dict_get credentials ''created_at''))"
  shows "get_hubspot_credentials env w user_id org_id = (Inr (JObj credentials), w)"
proof -
  obtain s ss where "blob = s # ss"
    using assms(2) by (cases blob) auto
  then show ?thesis
    using assms by (auto simp: get_hubspot_credentials_def Let_def)
qed

lemma credentials_checked:
  assumes "get_value_redis (''hubspot_credentials:'' @ org_id @ '':'' @ user_id) w = Some blob"
    and "blob \<noteq> []"
    and "json_loads env blob = Some (JObj credentials)"
    and "map_of credentials ''created_at'' = Some c" and "num_of c = Some cn"
    and "map_of credentials ''expires_in'' = Some e" and "num_of e = Some en"
    and "cn \<noteq> 0" and "en \<noteq> 0"
  shows "get_hubspot_credentials env w user_id org_id =
           (if clock env (ticks w) \<ge> cn + en
            then refresh_tokens env (w\<lparr>ticks := Suc (ticks w)\<rparr>)
                   (''hubspot_credentials:'' @ org_id @ '':'' @ user_id) credentials
            else (Inr (JObj credentials), w\<lparr>ticks := Suc (ticks w)\<rparr>))"
proof -
  obtain s ss where "blob = s # ss"
    using assms(2) by (cases blob) auto
  then show ?thesis
    using assms
    by (simp add: get_hubspot_credentials_def Let_def dict_get_Some dict_index_Some truthy_num
        read_time_def py_add_num py_int_ge_int)
qed

lemma refresh_tokens_ok:
  assumes "map_of credentials ''refresh_token'' = Some rt"
    and "http env (length (http_log w)) (refresh_request rt) = Body (JObj new_tokens)"
  shows "refresh_tokens env w key credentials =
           (Inr (JObj (dict_set new_tokens ''created_at'' (JInt (clock env (ticks w))))),
            w\<lparr> http_log := http_log w @ [refresh_request rt],
               ticks := Suc (ticks w),
               redis := (redis w)(key \<mapsto>
                 (json_dumps env (JObj (dict_set new_tokens ''created_at'' (JInt (clock env (ticks w))))),
                  Some 3600)) \<rparr>)"
  using assms
  by (simp add: refresh_tokens_def dict_index_Some http_call_def read_time_def Let_def
      add_key_value_redis_def)

lemma get_credentials_shape:
  assumes "get_hubspot_credentials env w user_id org_id = (r, w')"
  shows "(redis w' = redis w \<and> http_log w' = http_log w)
       \<or> (\<exists>credentials. refresh_tokens env (w\<lparr>ticks := Suc (ticks w)\<rparr>)
             (''hubspot_credentials:'' @ org_id @ '':'' @ user_id) credentials = (r, w'))"
  using assms
  by (auto simp: get_hubspot_credentials_def Let_def read_time_def
      split: option.splits list.splits json.splits sum.splits if_splits)

text \<open>
  Claim C3. For every stored credential record that contains \<^verbatim>\<open>created_at\<close> and
  \<^verbatim>\<open>expires_in\<close> (numbers), if the current time is below their sum, then
  \<^verbatim>\<open>get_hubspot_credentials\<close> returns the record as it is stored, sends no request and
  writes nothing to the cache.
\<close>

theorem unexpired_credentials_unchanged:
  assumes "get_value_redis (''hubspot_credentials:'' @ org_id @ '':'' @ user_id) w = Some blob"
    and "blob \<noteq> []"
    and "json_loads env blob = Some (JObj credentials)"
    and "map_of credentials ''created_at'' = Some c" and "num_of c = Some cn"
    and "map_of credentials ''expires_in'' = Some e" and "num_of e = Some en"
    and "clock env (ticks w) < cn + en"
  shows "\<exists>w'. get_hubspot_credentials env w user_id org_id = (Inr (JObj credentials), w')
           \<and> http_log w' = http_log w \<and> redis w' = redis w"
proof (cases "cn \<noteq> 0 \<and> en \<noteq> 0")
  case True
  then have "get_hubspot_credentials env w user_id org_id
             = (Inr (JObj credentials), w\<lparr>ticks := Suc (ticks w)\<rparr>)"
    using credentials_checked [OF assms(1-7)] assms(8) by simp
  then show ?thesis by simp
next
  case False
  then have "\<not> (truthy (dict_get credentials ''expires_in'')
               \<and> truthy (dict_get credentials ''created_at''))"
    using assms(4-7) by (auto simp: dict_get_Some truthy_num)
  then have "get_hubspot_credentials env w user_id org_id = (Inr (JObj credentials), w)"
    using credentials_unchecked [OF assms(1-3)] by simp
  then show ?thesis by simp
qed

theorem unexpired_credentials_unchanged_witness:
  "\<exists>w'. get_hubspot_credentials
           (table_env [(stored_tokens_text, JObj stored_tokens)] (\<lambda>n. 2000) (\<lambda>n r. HTTPError))
           (cache_world [(''hubspot_credentials:o1:u1'', stored_tokens_text, Some 3600)])
           ''u1'' ''o1''
         = (Inr (JObj stored_tokens), w')
       \<and> http_log w' = []
       \<and> redis w' = map_of [(''hubspot_credentials:o1:u1'', stored_tokens_text, Some 3600)]"
  using unexpired_credentials_unchanged
    [of "''o1''" "''u1''"
        "cache_world [(''hubspot_credentials:o1:u1'', stored_tokens_text, Some 3600)]"
        stored_tokens_text
        "table_env [(stored_tokens_text, JObj stored_tokens)] (\<lambda>n. 2000) (\<lambda>n r. HTTPError)"
        stored_tokens "JInt 1000" 1000 "JInt 1800" 1800]
  by (simp add: cache_world_def table_env_def get_value_redis_def stored_tokens_def
      stored_tokens_text_def)

text \<open>
  Where the guard of line 193 passes, the expired record is refreshed as the docstring
  of the function says: for a stored record whose \<^verbatim>\<open>created_at\<close> and \<^verbatim>\<open>expires_in\<close> are
  numbers other than zero and which holds a \<^verbatim>\<open>refresh_token\<close>, once the clock has
  reached their sum and the token endpoint answers with a JSON object, exactly the
  refresh request is sent, the answer is returned with \<^verbatim>\<open>created_at\<close> set to the next
  clock reading, and that record is stored under the key with a time to live of 3600
  seconds.
\<close>

lemma expired_credentials_refreshed:
  assumes "get_value_redis (''hubspot_credentials:'' @ org_id @ '':'' @ user_id) w = Some blob"
    and "blob \<noteq> []"
    and "json_loads env blob = Some (JObj credentials)"
    and "map_of credentials ''created_at'' = Some c" and "num_of c = Some cn"
    and "map_of credentials ''expires_in'' = Some e" and "num_of e = Some en"
    and "cn \<noteq> 0" and "en \<noteq> 0"
    and "clock env (ticks w) \<ge> cn + en"
    and "map_of credentials ''refresh_token'' = Some rt"
    and "http env (length (http_log w)) (refresh_request rt) = Body (JObj new_tokens)"
  shows "\<exists>renewed w'.
           get_hubspot_credentials env w user_id org_id = (Inr (JObj renewed), w')
         \<and> http_log w' = http_log w @ [refresh_request rt]
         \<and> renewed = dict_set new_tokens ''created_at'' (JInt (clock env (Suc (ticks w))))
         \<and> map_of renewed ''created_at'' = Some (JInt (clock env (Suc (ticks w))))
         \<and> redis w' = (redis w)(''hubspot_credentials:'' @ org_id @ '':'' @ user_id
                                   \<mapsto> (json_dumps env (JObj renewed), Some 3600))"
proof -
  let ?w1 = "w\<lparr>ticks := Suc (ticks w)\<rparr>"
  let ?key = "''hubspot_credentials:'' @ org_id @ '':'' @ user_id"
  have "get_hubspot_credentials env w user_id org_id = refresh_tokens env ?w1 ?key credentials"
    using credentials_checked [OF assms(1-9)] assms(10) by simp
  moreover have "http env (length (http_log ?w1)) (refresh_request rt) = Body (JObj new_tokens)"
    using assms(12) by simp
  ultimately show ?thesis
    using refresh_tokens_ok [OF assms(11), of env ?w1 new_tokens ?key]
    by (simp add: map_of_dict_set)
qed

text \<open>
  Claim C2. For every stored credential record that contains \<^verbatim>\<open>created_at\<close> and
  \<^verbatim>\<open>expires_in\<close>, if the current time has reached their sum, then
  \<^verbatim>\<open>get_hubspot_credentials\<close> sends exactly one refresh request, returns a record whose
  \<^verbatim>\<open>created_at\<close> is not below the current time, and stores it under
  \<^verbatim>\<open>hubspot_credentials:{org_id}:{user_id}\<close> with a time to live of 3600 seconds. The
  code does not keep to this. The guard of line 193 tests the truth value of the two
  fields instead of their presence, and 0 is false: the record below, with
  \<^verbatim>\<open>expires_in\<close> 0 and \<^verbatim>\<open>created_at\<close> 1000, is read at time 5000, when its token has
  expired, and is returned as it is stored; the world is unchanged, so no request was
  sent, nothing was written to the cache and not even the clock was read.
\<close>

theorem zero_lifetime_not_refreshed:
  "json_loads (table_env [(zero_lifetime_text, JObj zero_lifetime_tokens)] (\<lambda>n. 5000 + int n)
                 (\<lambda>n r. Body (JObj fresh_tokens))) zero_lifetime_text
     = Some (JObj [(''access_token'', JStr ''A1''), (''refresh_token'', JStr ''R1''),
                   (''expires_in'', JInt 0), (''created_at'', JInt 1000)])
   \<and> clock (table_env [(zero_lifetime_text, JObj zero_lifetime_tokens)] (\<lambda>n. 5000 + int n)
              (\<lambda>n r. Body (JObj fresh_tokens)))
        (ticks (cache_world [(''hubspot_credentials:o1:u1'', zero_lifetime_text, Some 3600)]))
       \<ge> 1000 + 0
   \<and> get_hubspot_credentials
        (table_env [(zero_lifetime_text, JObj zero_lifetime_tokens)] (\<lambda>n. 5000 + int n)
           (\<lambda>n r. Body (JObj fresh_tokens)))
        (cache_world [(''hubspot_credentials:o1:u1'', zero_lifetime_text, Some 3600)])
        ''u1'' ''o1''
     = (Inr (JObj [(''access_token'', JStr ''A1''), (''refresh_token'', JStr ''R1''),
                   (''expires_in'', JInt 0), (''created_at'', JInt 1000)]),
        cache_world [(''hubspot_credentials:o1:u1'', zero_lifetime_text, Some 3600)])"
  by (simp add: cache_world_def table_env_def get_value_redis_def zero_lifetime_tokens_def
      zero_lifetime_text_def get_hubspot_credentials_def dict_get_def dict_get_default_def)

lemma refresh_tokens_failure:
  assumes "refresh_tokens env w key credentials = (r, w')"
    and "http_log w' = http_log w @ [req]"
    and "http env (length (http_log w)) req = HTTPError"
  shows "r = Inl (HTTPException 400 RefreshFailed) \<and> redis w' = redis w"
  using assms
  by (auto simp: refresh_tokens_def dict_index_def http_call_def read_time_def Let_def
      add_key_value_redis_def split: option.splits http_outcome.splits json.splits)

lemma refresh_tokens_write:
  assumes "refresh_tokens env w key credentials = (r, w')"
  shows "redis w' = redis w
       \<or> (\<exists>rt d. http_log w' = http_log w @ [refresh_request rt]
             \<and> http env (length (http_log w)) (refresh_request rt) = Body (JObj d))"
  using assms
  by (auto simp: refresh_tokens_def dict_index_def http_call_def read_time_def Let_def
      add_key_value_redis_def split: option.splits http_outcome.splits json.splits)

text \<open>
  Claim C10. If the refresh request inside \<^verbatim>\<open>get_hubspot_credentials\<close> fails, the
  function raises the error 400 of line 225 and leaves the cache as it was; the cache
  is written only after the refresh request has been answered with a JSON object.
\<close>

theorem refresh_failure_keeps_cache:
  assumes "get_hubspot_credentials env w user_id org_id = (r, w')"
  shows "(\<forall>req. http_log w' = http_log w @ [req]
              \<and> http env (length (http_log w)) req = HTTPError
            \<longrightarrow> r = Inl (HTTPException 400 RefreshFailed) \<and> redis w' = redis w)
       \<and> (redis w' = redis w
          \<or> (\<exists>rt d. http_log w' = http_log w @ [refresh_request rt]
                \<and> http env (length (http_log w)) (refresh_request rt) = Body (JObj d)))"
proof -
  let ?w1 = "w\<lparr>ticks := Suc (ticks w)\<rparr>"
  let ?key = "''hubspot_credentials:'' @ org_id @ '':'' @ user_id"
  from get_credentials_shape [OF assms]
  consider (quiet) "redis w' = redis w" "http_log w' = http_log w"
    | (refresh) credentials where "refresh_tokens env ?w1 ?key credentials = (r, w')"
    by blast
  then show ?thesis
  proof cases
    case quiet
    then show ?thesis by simp
  next
    case refresh
    have "r = Inl (HTTPException 400 RefreshFailed) \<and> redis w' = redis w"
      if "http_log w' = http_log w @ [req]" "http env (length (http_log w)) req = HTTPError"
      for req
      using refresh_tokens_failure [OF refresh, of req] that by simp
    moreover have "redis w' = redis w
       \<or> (\<exists>rt d. http_log w' = http_log w @ [refresh_request rt]
             \<and> http env (length (http_log w)) (refresh_request rt) = Body (JObj d))"
      using refresh_tokens_write [OF refresh] by simp
    ultimately show ?thesis
      by blast
  qed
qed

theorem refresh_failure_keeps_cache_witness:
  "fst (get_hubspot_credentials
          (table_env [(stored_tokens_text, JObj stored_tokens)] (\<lambda>n. 5000 + int n) (\<lambda>n r. HTTPError))
          (cache_world [(''hubspot_credentials:o1:u1'', stored_tokens_text, Some 3600)])
          ''u1'' ''o1'')
     = Inl (HTTPException 400 RefreshFailed)
   \<and> redis (snd (get_hubspot_credentials
          (table_env [(stored_tokens_text, JObj stored_tokens)] (\<lambda>n. 5000 + int n) (\<lambda>n r. HTTPError))
          (cache_world [(''hubspot_credentials:o1:u1'', stored_tokens_text, Some 3600)])
          ''u1'' ''o1''))
     = redis (cache_world [(''hubspot_credentials:o1:u1'', stored_tokens_text, Some 3600)])"
proof -
  let ?env = "table_env [(stored_tokens_text, JObj stored_tokens)] (\<lambda>n. 5000 + int n) (\<lambda>n r. HTTPError)"
  let ?w = "cache_world [(''hubspot_credentials:o1:u1'', stored_tokens_text, Some 3600)]"
  let ?run = "get_hubspot_credentials ?env ?w ''u1'' ''o1''"
  have sent: "http_log (snd ?run) = http_log ?w @ [refresh_request (JStr ''R1'')]"
    by (simp add: cache_world_def table_env_def get_value_redis_def stored_tokens_def
        stored_tokens_text_def get_hubspot_credentials_def dict_get_def dict_get_default_def
        dict_index_def read_time_def py_int_ge_def refresh_tokens_def http_call_def)
  have failed: "http ?env (length (http_log ?w)) (refresh_request (JStr ''R1'')) = HTTPError"
    by (simp add: table_env_def)
  have "?run = (fst ?run, snd ?run)"
    by simp
  from refresh_failure_keeps_cache [OF this] sent failed show ?thesis
    by blast
qed

section \<open>Properties of the callback handler\<close>

lemma decode_forged_state_parameter: "urlsafe_b64decode forged_state_parameter = Inr forged_state_text"
  by code_simp

lemma decode_state_parameter: "urlsafe_b64decode state_parameter = Inr state_text"
  by code_simp

lemma decode_extended_state_parameter:
  "urlsafe_b64decode extended_state_parameter = Inr extended_state_text"
  by code_simp

text \<open>Of a parameter given more than once, the handler reads the last value.\<close>

lemma query_get_last: "query_get (query_params @ [(name, v)]) name = Some v"
  by (simp add: query_get_def)

lemma exchange_code_success:
  assumes "exchange_code env w code state_key credentials_key = (Inr page, w1)"
  shows "\<exists>tokens. http env (length (http_log w)) (exchange_request code) = Body tokens
           \<and> http_log w1 = http_log w @ [exchange_request code]
           \<and> ticks w1 = ticks w
           \<and> redis w1 = ((redis w)(credentials_key \<mapsto> (json_dumps env tokens, Some 3600)))
                           (state_key := None)"
  using assms
  by (auto simp: exchange_code_def http_call_def add_key_value_redis_def delete_key_redis_def
      Let_def split: http_outcome.splits)

lemma exchange_code_answered:
  assumes "http env (length (http_log w)) (exchange_request code) = Body tokens"
  shows "exchange_code env w code state_key credentials_key
         = (Inr (HTMLResponse close_window_page),
            w\<lparr> http_log := http_log w @ [exchange_request code],
               redis := ((redis w)(credentials_key \<mapsto> (json_dumps env tokens, Some 3600)))
                          (state_key := None) \<rparr>)"
  using assms
  by (simp add: exchange_code_def http_call_def add_key_value_redis_def delete_key_redis_def
      Let_def)

lemma callback_success:
  assumes "oauth2callback_hubspot env w query_params = (Inr page, w1)"
  shows "\<exists>code encoded_state state_data.
            query_get query_params ''code'' = Some code
          \<and> query_get query_params ''state'' = Some encoded_state
          \<and> decode_state env encoded_state = Some (JObj state_data)
          \<and> exchange_code env w code
               (''hubspot_state:'' @ py_str env (dict_get state_data ''org_id'') @ '':''
                  @ py_str env (dict_get state_data ''user_id''))
               (''hubspot_credentials:'' @ py_str env (dict_get state_data ''org_id'') @ '':''
                  @ py_str env (dict_get state_data ''user_id''))
             = (Inr page, w1)"
  using assms
  by (auto simp: oauth2callback_hubspot_def py_get_def Let_def
      split: option.splits list.splits json.splits if_splits)

text \<open>
  The way through the checks of lines 85 to 120: no error parameter, a code, a state
  that decodes to an object, and under the key built from its ids a cached object with
  an equal nonce. The handler then goes on to the token exchange.
\<close>

lemma callback_accepts:
  assumes "query_get query_params ''error'' = None"
    and "query_get query_params ''code'' = Some code" and "code \<noteq> []"
    and "query_get query_params ''state'' = Some encoded_state" and "encoded_state \<noteq> []"
    and "decode_state env encoded_state = Some (JObj state_data)"
    and "get_value_redis
           (''hubspot_state:'' @ py_str env (dict_get state_data ''org_id'') @ '':''
              @ py_str env (dict_get state_data ''user_id'')) w = Some blob"
    and "blob \<noteq> []"
    and "json_loads env blob = Some (JObj saved)"
    and "py_eq (dict_get state_data ''state'') (dict_get saved ''state'')"
  shows "oauth2callback_hubspot env w query_params
         = exchange_code env w code
             (''hubspot_state:'' @ py_str env (dict_get state_data ''org_id'') @ '':''
                @ py_str env (dict_get state_data ''user_id''))
             (''hubspot_credentials:'' @ py_str env (dict_get state_data ''org_id'') @ '':''
                @ py_str env (dict_get state_data ''user_id''))"
proof -
  obtain c cs where c: "code = c # cs"
    using assms(3) by (cases code) auto
  obtain e es where e: "encoded_state = e # es"
    using assms(5) by (cases encoded_state) auto
  obtain s ss where s: "blob = s # ss"
    using assms(8) by (cases blob) auto
  show ?thesis
    using assms unfolding c e s
    by (simp add: oauth2callback_hubspot_def py_get_def Let_def)
qed

lemmas example_texts =
  state_text_def extended_state_text_def forged_state_text_def issued_tokens_text_def
  stored_tokens_text_def

lemma callback_env_loads:
  "json_loads callback_env state_text = Some state_value"
  "json_loads callback_env extended_state_text = Some extended_state_value"
  "json_loads callback_env forged_state_text = Some forged_state_value"
  "json_loads callback_env issued_tokens_text = Some (JObj issued_tokens)"
  by (simp_all add: callback_env_def table_env_def example_texts)

lemma callback_env_dumps:
  "json_dumps callback_env (JObj issued_tokens) = issued_tokens_text"
  by (simp add: callback_env_def table_env_def state_value_def extended_state_value_def
      forged_state_value_def issued_tokens_def)

lemma callback_world_state:
  "get_value_redis ''hubspot_state:o1:u1'' callback_world = Some state_text"
  "state_text \<noteq> []"
  "http_log callback_world = []"
  by (simp_all add: callback_world_def cache_world_def get_value_redis_def state_text_def)

lemma example_ids:
  "py_str env (dict_get [(''state'', JStr n), (''user_id'', JStr ''u1''), (''org_id'', JStr ''o1'')] ''org_id'') = ''o1''"
  "py_str env (dict_get [(''state'', JStr n), (''user_id'', JStr ''u1''), (''org_id'', JStr ''o1'')] ''user_id'') = ''u1''"
  "py_str env (dict_get [(''state'', JStr n), (''user_id'', JStr ''u1''), (''org_id'', JStr ''o1''), (''via'', JStr ''x'')] ''org_id'') = ''o1''"
  "py_str env (dict_get [(''state'', JStr n), (''user_id'', JStr ''u1''), (''org_id'', JStr ''o1''), (''via'', JStr ''x'')] ''user_id'') = ''u1''"
  by (simp_all add: dict_get_def dict_get_default_def py_str_def)

text \<open>
  The request \<^verbatim>\<open>code=c0de&state=...\<close> with the state that the authorizer stored, in an
  environment that reads the stored text: the handler goes on to the token exchange.
  So it does when a state with another nonce stands before that state in the query.
\<close>

lemma example_callback_run:
  assumes "json_loads env state_text = Some state_value"
  shows "oauth2callback_hubspot env callback_world
           [(''code'', ''c0de''), (''state'', state_parameter)]
         = exchange_code env callback_world ''c0de''
             ''hubspot_state:o1:u1'' ''hubspot_credentials:o1:u1''"
    and "oauth2callback_hubspot env callback_world
           [(''code'', ''c0de''), (''state'', forged_state_parameter), (''state'', state_parameter)]
         = exchange_code env callback_world ''c0de''
             ''hubspot_state:o1:u1'' ''hubspot_credentials:o1:u1''"
proof -
  let ?sd = "[(''state'', JStr ''N0''), (''user_id'', JStr ''u1''), (''org_id'', JStr ''o1'')]"
  have decoded: "decode_state env state_parameter = Some (JObj ?sd)"
    using assms by (simp add: decode_state_def decode_state_parameter state_value_def)
  have cached: "get_value_redis
           (''hubspot_state:'' @ py_str env (dict_get ?sd ''org_id'') @ '':''
              @ py_str env (dict_get ?sd ''user_id'')) callback_world = Some state_text"
    by (simp add: example_ids callback_world_state)
  have loads: "json_loads env state_text = Some (JObj ?sd)"
    using assms by (simp add: state_value_def)
  have eq: "py_eq (dict_get ?sd ''state'') (dict_get ?sd ''state'')"
    by (simp add: dict_get_def dict_get_default_def)
  have nonempty: "''c0de'' \<noteq> []" "state_parameter \<noteq> []"
    by (simp_all add: state_parameter_def)
  show "oauth2callback_hubspot env callback_world
           [(''code'', ''c0de''), (''state'', state_parameter)]
         = exchange_code env callback_world ''c0de''
             ''hubspot_state:o1:u1'' ''hubspot_credentials:o1:u1''"
    using callback_accepts [OF _ _ nonempty(1) _ nonempty(2) decoded cached
        callback_world_state(2) loads eq,
        of "[(''code'', ''c0de''), (''state'', state_parameter)]"]
    by (simp add: query_get_def example_ids)
  show "oauth2callback_hubspot env callback_world
           [(''code'', ''c0de''), (''state'', forged_state_parameter), (''state'', state_parameter)]
         = exchange_code env callback_world ''c0de''
             ''hubspot_state:o1:u1'' ''hubspot_credentials:o1:u1''"
    using callback_accepts [OF _ _ nonempty(1) _ nonempty(2) decoded cached
        callback_world_state(2) loads eq,
        of "[(''code'', ''c0de''), (''state'', forged_state_parameter), (''state'', state_parameter)]"]
    by (simp add: query_get_def example_ids)
qed

text \<open>
  Claim C1, as the code has it. For every callback request whose \<^verbatim>\<open>state\<close> parameter
  decodes to a JSON object: if the cache holds no state blob under the key built from
  the decoded \<^verbatim>\<open>org_id\<close> and \<^verbatim>\<open>user_id\<close>, or holds a blob (a JSON object) whose
  \<^verbatim>\<open>state\<close> nonce is not equal to the decoded one, the handler raises an error 400
  and the world is unchanged: no token exchange, no cache write. Line 116 compares the
  nonces only. The claim that any difference in a byte between the decoded state and
  the cached blob is rejected fails at the request below, whose state carries one more
  field: the handler goes on to the token exchange.
\<close>

theorem state_nonce_mismatch_rejected:
  assumes "query_get query_params ''state'' = Some encoded_state"
    and "decode_state env encoded_state = Some (JObj state_data)"
    and "case get_value_redis
                (''hubspot_state:'' @ py_str env (dict_get state_data ''org_id'') @ '':''
                   @ py_str env (dict_get state_data ''user_id'')) w of
           None \<Rightarrow> True
         | Some blob \<Rightarrow>
             blob = [] \<or> (\<exists>saved. json_loads env blob = Some (JObj saved)
                              \<and> \<not> py_eq (dict_get state_data ''state'') (dict_get saved ''state''))"
  shows "\<exists>d. oauth2callback_hubspot env w query_params = (Inl (HTTPException 400 d), w)"
  using assms
  by (auto simp: oauth2callback_hubspot_def py_get_def Let_def
      split: option.splits list.splits)

theorem state_nonce_mismatch_rejected_witness:
  "\<exists>d. oauth2callback_hubspot callback_env callback_world
          [(''code'', ''c0de''), (''state'', state_parameter), (''state'', forged_state_parameter)]
        = (Inl (HTTPException 400 d), callback_world)"
proof -
  have given: "query_get [(''code'', ''c0de''), (''state'', state_parameter),
                          (''state'', forged_state_parameter)] ''state''
               = Some forged_state_parameter"
    by (simp add: query_get_def)
  have decoded: "decode_state callback_env forged_state_parameter
                 = Some (JObj [(''state'', JStr ''N1''), (''user_id'', JStr ''u1''), (''org_id'', JStr ''o1'')])"
    by (simp add: decode_state_def decode_forged_state_parameter callback_env_loads
        forged_state_value_def)
  have differs: "json_loads callback_env state_text
        = Some (JObj [(''state'', JStr ''N0''), (''user_id'', JStr ''u1''), (''org_id'', JStr ''o1'')])
      \<and> \<not> py_eq (JStr ''N1'') (JStr ''N0'')"
    by (simp add: callback_env_loads state_value_def)
  have cached: "case get_value_redis
                (''hubspot_state:''
                   @ py_str callback_env
                       (dict_get [(''state'', JStr ''N1''), (''user_id'', JStr ''u1''),
                                  (''org_id'', JStr ''o1'')] ''org_id'')
                   @ '':''
                   @ py_str callback_env
                       (dict_get [(''state'', JStr ''N1''), (''user_id'', JStr ''u1''),
                                  (''org_id'', JStr ''o1'')] ''user_id'')) callback_world of
           None \<Rightarrow> True
         | Some blob \<Rightarrow>
             blob = [] \<or> (\<exists>saved. json_loads callback_env blob = Some (JObj saved)
                              \<and> \<not> py_eq (dict_get [(''state'', JStr ''N1''), (''user_id'', JStr ''u1''),
                                                     (''org_id'', JStr ''o1'')] ''state'')
                                           (dict_get saved ''state''))"
    unfolding example_ids
    by (simp add: callback_world_state differs dict_get_def dict_get_default_def)
  show ?thesis
    by (rule state_nonce_mismatch_rejected [OF given decoded cached])
qed

theorem state_nonce_mismatch_rejected_counterexample:
  "urlsafe_b64decode extended_state_parameter = Inr extended_state_text
   \<and> get_value_redis ''hubspot_state:o1:u1'' callback_world = Some state_text
   \<and> extended_state_text \<noteq> state_text
   \<and> fst (oauth2callback_hubspot callback_env callback_world
            [(''code'', ''c0de''), (''state'', extended_state_parameter)])
       = Inr (HTMLResponse close_window_page)
   \<and> http_log (snd (oauth2callback_hubspot callback_env callback_world
            [(''code'', ''c0de''), (''state'', extended_state_parameter)]))
       = [exchange_request ''c0de'']"
proof -
  let ?sd = "[(''state'', JStr ''N0''), (''user_id'', JStr ''u1''), (''org_id'', JStr ''o1''),
              (''via'', JStr ''x'')]"
  let ?saved = "[(''state'', JStr ''N0''), (''user_id'', JStr ''u1''), (''org_id'', JStr ''o1'')]"
  let ?qp = "[(''code'', ''c0de''), (''state'', extended_state_parameter)]"
  have decoded: "decode_state callback_env extended_state_parameter = Some (JObj ?sd)"
    by (simp add: decode_state_def decode_extended_state_parameter callback_env_loads
        extended_state_value_def)
  have cached: "get_value_redis
           (''hubspot_state:'' @ py_str callback_env (dict_get ?sd ''org_id'') @ '':''
              @ py_str callback_env (dict_get ?sd ''user_id'')) callback_world = Some state_text"
    by (simp add: example_ids callback_world_state)
  have loads: "json_loads callback_env state_text = Some (JObj ?saved)"
    by (simp add: callback_env_loads state_value_def)
  have eq: "py_eq (dict_get ?sd ''state'') (dict_get ?saved ''state'')"
    by (simp add: dict_get_def dict_get_default_def)
  have nonempty: "''c0de'' \<noteq> []" "extended_state_parameter \<noteq> []"
    by (simp_all add: extended_state_parameter_def)
  have run: "oauth2callback_hubspot callback_env callback_world ?qp
             = exchange_code callback_env callback_world ''c0de''
                 ''hubspot_state:o1:u1'' ''hubspot_credentials:o1:u1''"
    using callback_accepts [OF _ _ nonempty(1) _ nonempty(2) decoded cached
        callback_world_state(2) loads eq, of ?qp]
    by (simp add: query_get_def example_ids)
  have answer: "http callback_env n r = Body (JObj issued_tokens)" for n r
    by (simp add: callback_env_def table_env_def)
  have "extended_state_text \<noteq> state_text"
    by (simp add: example_texts)
  then show ?thesis
    by (simp add: run decode_extended_state_parameter callback_world_state
        exchange_code_answered [OF answer])
qed

text \<open>
  Claim C5, as the code has it. A stored credential record that lacks \<^verbatim>\<open>created_at\<close>
  or \<^verbatim>\<open>expires_in\<close> is returned unchanged by \<^verbatim>\<open>get_hubspot_credentials\<close>, with no
  request, no cache write and no reading of the clock, however old it is. A successful
  callback stores the token response of the provider as it came
  (\<^verbatim>\<open>json.dumps(tokens)\<close>, time to live 3600 seconds), adding no \<^verbatim>\<open>created_at\<close>. So a
  record stored by the callback leads to a refresh only if the provider's response
  itself carries a \<^verbatim>\<open>created_at\<close> and an \<^verbatim>\<open>expires_in\<close> that count as true: when the
  response is an object in which one of the two is absent or counts as false, and
  \<^verbatim>\<open>json.loads\<close> reads it back from the stored text, every later call of the accessor
  on that entry, at whatever time, returns it with the world unchanged. The claim that
  a record stored by the callback never leads to a refresh fails at the provider
  below, whose response carries both fields: the accessor, called after the callback,
  sends the refresh request.
\<close>

theorem credentials_without_timestamps:
  "(get_value_redis (''hubspot_credentials:'' @ org_id @ '':'' @ user_id) w = Some blob
      \<and> blob \<noteq> []
      \<and> json_loads env blob = Some (JObj credentials)
      \<and> (map_of credentials ''created_at'' = None \<or> map_of credentials ''expires_in'' = None)
    \<longrightarrow> get_hubspot_credentials env w user_id org_id = (Inr (JObj credentials), w))
   \<and> (oauth2callback_hubspot env w query_params = (Inr page, w1)
    \<longrightarrow> (\<exists>code encoded_state state_data tokens.
            query_get query_params ''code'' = Some code
          \<and> query_get query_params ''state'' = Some encoded_state
          \<and> decode_state env encoded_state = Some (JObj state_data)
          \<and> http env (length (http_log w)) (exchange_request code) = Body tokens
          \<and> redis w1 (''hubspot_credentials:'' @ py_str env (dict_get state_data ''org_id'')
                         @ '':'' @ py_str env (dict_get state_data ''user_id''))
              = Some (json_dumps env tokens, Some 3600)
          \<and> (\<forall>t env' w2.
                 tokens = JObj t
               \<and> \<not> (truthy (dict_get t ''expires_in'') \<and> truthy (dict_get t ''created_at''))
               \<and> json_dumps env tokens \<noteq> []
               \<and> json_loads env' (json_dumps env tokens) = Some tokens
               \<and> redis w2 (''hubspot_credentials:'' @ py_str env (dict_get state_data ''org_id'')
                              @ '':'' @ py_str env (dict_get state_data ''user_id''))
                   = Some (json_dumps env tokens, Some 3600)
               \<longrightarrow> get_hubspot_credentials env' w2
                     (py_str env (dict_get state_data ''user_id''))
                     (py_str env (dict_get state_data ''org_id''))
                   = (Inr tokens, w2))))"
proof (intro conjI impI)
  assume a: "get_value_redis (''hubspot_credentials:'' @ org_id @ '':'' @ user_id) w = Some blob
      \<and> blob \<noteq> []
      \<and> json_loads env blob = Some (JObj credentials)
      \<and> (map_of credentials ''created_at'' = None \<or> map_of credentials ''expires_in'' = None)"
  then have "\<not> (truthy (dict_get credentials ''expires_in'')
               \<and> truthy (dict_get credentials ''created_at''))"
    by (auto simp: dict_get_None)
  with a show "get_hubspot_credentials env w user_id org_id = (Inr (JObj credentials), w)"
    by (simp add: credentials_unchecked)
next
  assume run: "oauth2callback_hubspot env w query_params = (Inr page, w1)"
  from callback_success [OF run] obtain code encoded_state state_data where
      q: "query_get query_params ''code'' = Some code"
         "query_get query_params ''state'' = Some encoded_state"
         "decode_state env encoded_state = Some (JObj state_data)"
    and ex: "exchange_code env w code
               (''hubspot_state:'' @ py_str env (dict_get state_data ''org_id'') @ '':''
                  @ py_str env (dict_get state_data ''user_id''))
               (''hubspot_credentials:'' @ py_str env (dict_get state_data ''org_id'') @ '':''
                  @ py_str env (dict_get state_data ''user_id''))
             = (Inr page, w1)"
    by blast
  let ?oid = "py_str env (dict_get state_data ''org_id'')"
  let ?uid = "py_str env (dict_get state_data ''user_id'')"
  from exchange_code_success [OF ex] obtain tokens where
      t: "http env (length (http_log w)) (exchange_request code) = Body tokens"
    and r: "redis w1 = ((redis w)(''hubspot_credentials:'' @ ?oid @ '':'' @ ?uid
                          \<mapsto> (json_dumps env tokens, Some 3600)))
                        (''hubspot_state:'' @ ?oid @ '':'' @ ?uid := None)"
    by blast
  have stored: "redis w1 (''hubspot_credentials:'' @ ?oid @ '':'' @ ?uid)
                = Some (json_dumps env tokens, Some 3600)"
    unfolding r by simp
  have later: "get_hubspot_credentials env' w2 ?uid ?oid = (Inr tokens, w2)"
    if "tokens = JObj t
        \<and> \<not> (truthy (dict_get t ''expires_in'') \<and> truthy (dict_get t ''created_at''))
        \<and> json_dumps env tokens \<noteq> []
        \<and> json_loads env' (json_dumps env tokens) = Some tokens
        \<and> redis w2 (''hubspot_credentials:'' @ ?oid @ '':'' @ ?uid)
            = Some (json_dumps env tokens, Some 3600)"
    for t env' w2
  proof -
    from that have tok: "tokens = JObj t"
      and no_check: "\<not> (truthy (dict_get t ''expires_in'') \<and> truthy (dict_get t ''created_at''))"
      and nonempty: "json_dumps env tokens \<noteq> []"
      and loads: "json_loads env' (json_dumps env tokens) = Some (JObj t)"
      and cached: "redis w2 (''hubspot_credentials:'' @ ?oid @ '':'' @ ?uid)
                   = Some (json_dumps env tokens, Some 3600)"
      by auto
    from cached have got: "get_value_redis (''hubspot_credentials:'' @ ?oid @ '':'' @ ?uid) w2
                    = Some (json_dumps env tokens)"
      by (simp add: get_value_redis_def)
    show ?thesis
      unfolding tok
      by (rule credentials_unchecked [OF got nonempty loads no_check])
  qed
  show "\<exists>code encoded_state state_data tokens.
            query_get query_params ''code'' = Some code
          \<and> query_get query_params ''state'' = Some encoded_state
          \<and> decode_state env encoded_state = Some (JObj state_data)
          \<and> http env (length (http_log w)) (exchange_request code) = Body tokens
          \<and> redis w1 (''hubspot_credentials:'' @ py_str env (dict_get state_data ''org_id'')
                         @ '':'' @ py_str env (dict_get state_data ''user_id''))
              = Some (json_dumps env tokens, Some 3600)
          \<and> (\<forall>t env' w2.
                 tokens = JObj t
               \<and> \<not> (truthy (dict_get t ''expires_in'') \<and> truthy (dict_get t ''created_at''))
               \<and> json_dumps env tokens \<noteq> []
               \<and> json_loads env' (json_dumps env tokens) = Some tokens
               \<and> redis w2 (''hubspot_credentials:'' @ py_str env (dict_get state_data ''org_id'')
                              @ '':'' @ py_str env (dict_get state_data ''user_id''))
                   = Some (json_dumps env tokens, Some 3600)
               \<longrightarrow> get_hubspot_credentials env' w2
                     (py_str env (dict_get state_data ''user_id''))
                     (py_str env (dict_get state_data ''org_id''))
                   = (Inr tokens, w2))"
    using q t stored later by blast
qed

theorem credentials_without_timestamps_witness:
  "get_hubspot_credentials callback_env
     (cache_world [(''hubspot_credentials:o1:u1'', issued_tokens_text, Some 3600)]) ''u1'' ''o1''
   = (Inr (JObj issued_tokens),
      cache_world [(''hubspot_credentials:o1:u1'', issued_tokens_text, Some 3600)])
   \<and> fst (oauth2callback_hubspot callback_env callback_world
            [(''code'', ''c0de''), (''state'', state_parameter)])
       = Inr (HTMLResponse close_window_page)
   \<and> get_hubspot_credentials callback_env
        (snd (oauth2callback_hubspot callback_env callback_world
                [(''code'', ''c0de''), (''state'', state_parameter)])) ''u1'' ''o1''
       = (Inr (JObj issued_tokens),
          snd (oauth2callback_hubspot callback_env callback_world
                 [(''code'', ''c0de''), (''state'', state_parameter)]))"
proof -
  let ?w0 = "cache_world [(''hubspot_credentials:o1:u1'', issued_tokens_text, Some 3600)]"
  let ?qp = "[(''code'', ''c0de''), (''state'', state_parameter)]"
  let ?run = "oauth2callback_hubspot callback_env callback_world ?qp"
  have nonempty: "issued_tokens_text \<noteq> []"
    by (simp add: issued_tokens_text_def)
  have first: "get_hubspot_credentials callback_env ?w0 ''u1'' ''o1'' = (Inr (JObj issued_tokens), ?w0)"
    using credentials_without_timestamps
      [of "''o1''" "''u1''" ?w0 issued_tokens_text callback_env issued_tokens, THEN conjunct1]
    by (simp add: cache_world_def get_value_redis_def nonempty callback_env_loads issued_tokens_def)
  have answer: "http callback_env n r = Body (JObj issued_tokens)" for n r
    by (simp add: callback_env_def table_env_def)
  have page: "fst ?run = Inr (HTMLResponse close_window_page)"
    by (simp add: example_callback_run(1) [OF callback_env_loads(1)]
        exchange_code_answered [OF answer])
  then have "?run = (Inr (HTMLResponse close_window_page), snd ?run)"
    by (metis prod.collapse)
  from credentials_without_timestamps [THEN conjunct2, rule_format, OF this]
  obtain code encoded_state state_data tokens where
      q: "query_get ?qp ''code'' = Some code" "query_get ?qp ''state'' = Some encoded_state"
    and d: "decode_state callback_env encoded_state = Some (JObj state_data)"
    and t: "http callback_env (length (http_log callback_world)) (exchange_request code) = Body tokens"
    and stored: "redis (snd ?run)
                   (''hubspot_credentials:'' @ py_str callback_env (dict_get state_data ''org_id'')
                      @ '':'' @ py_str callback_env (dict_get state_data ''user_id''))
                 = Some (json_dumps callback_env tokens, Some 3600)"
    and later: "\<And>t env' w2.
                 tokens = JObj t
               \<and> \<not> (truthy (dict_get t ''expires_in'') \<and> truthy (dict_get t ''created_at''))
               \<and> json_dumps callback_env tokens \<noteq> []
               \<and> json_loads env' (json_dumps callback_env tokens) = Some tokens
               \<and> redis w2 (''hubspot_credentials:'' @ py_str callback_env (dict_get state_data ''org_id'')
                              @ '':'' @ py_str callback_env (dict_get state_data ''user_id''))
                   = Some (json_dumps callback_env tokens, Some 3600)
               \<Longrightarrow> get_hubspot_credentials env' w2
                     (py_str callback_env (dict_get state_data ''user_id''))
                     (py_str callback_env (dict_get state_data ''org_id''))
                   = (Inr tokens, w2)"
    by blast
  from q(2) have "encoded_state = state_parameter"
    by (simp add: query_get_def)
  with d have sd: "state_data = [(''state'', JStr ''N0''), (''user_id'', JStr ''u1''), (''org_id'', JStr ''o1'')]"
    by (simp add: decode_state_def decode_state_parameter callback_env_loads state_value_def)
  from t have tok: "tokens = JObj issued_tokens"
    by (simp add: answer)
  have ids: "py_str callback_env (dict_get state_data ''org_id'') = ''o1''"
      "py_str callback_env (dict_get state_data ''user_id'') = ''u1''"
    by (simp_all add: sd example_ids)
  have no_ts: "\<not> (truthy (dict_get issued_tokens ''expires_in'')
                  \<and> truthy (dict_get issued_tokens ''created_at''))"
    by (simp add: issued_tokens_def dict_get_def dict_get_default_def)
  have "tokens = JObj issued_tokens
      \<and> \<not> (truthy (dict_get issued_tokens ''expires_in'')
            \<and> truthy (dict_get issued_tokens ''created_at''))
      \<and> json_dumps callback_env tokens \<noteq> []
      \<and> json_loads callback_env (json_dumps callback_env tokens) = Some tokens
      \<and> redis (snd ?run)
            (''hubspot_credentials:'' @ py_str callback_env (dict_get state_data ''org_id'')
               @ '':'' @ py_str callback_env (dict_get state_data ''user_id''))
          = Some (json_dumps callback_env tokens, Some 3600)"
    using stored no_ts by (simp add: tok callback_env_dumps callback_env_loads nonempty)
  from later [OF this]
  have "get_hubspot_credentials callback_env (snd ?run) ''u1'' ''o1''
        = (Inr (JObj issued_tokens), snd ?run)"
    by (simp add: ids tok)
  with first page show ?thesis
    by simp
qed

theorem credentials_without_timestamps_counterexample:
  "fst (oauth2callback_hubspot stamping_env callback_world
          [(''code'', ''c0de''), (''state'', state_parameter)])
     = Inr (HTMLResponse close_window_page)
   \<and> redis (snd (oauth2callback_hubspot stamping_env callback_world
                   [(''code'', ''c0de''), (''state'', state_parameter)]))
        ''hubspot_credentials:o1:u1''
     = Some (stored_tokens_text, Some 3600)
   \<and> http_log (snd (get_hubspot_credentials stamping_env
                      (snd (oauth2callback_hubspot stamping_env callback_world
                              [(''code'', ''c0de''), (''state'', state_parameter)]))
                      ''u1'' ''o1''))
     = [exchange_request ''c0de'', refresh_request (JStr ''R1'')]"
proof -
  let ?run = "oauth2callback_hubspot stamping_env callback_world
                [(''code'', ''c0de''), (''state'', state_parameter)]"
  have loads: "json_loads stamping_env state_text = Some state_value"
      "json_loads stamping_env stored_tokens_text = Some (JObj stored_tokens)"
    by (simp_all add: stamping_env_def table_env_def example_texts)
  have dumps: "json_dumps stamping_env (JObj stored_tokens) = stored_tokens_text"
    by (simp add: stamping_env_def table_env_def state_value_def stored_tokens_def)
  have answer: "http stamping_env n r = Body (JObj stored_tokens)" for n r
    by (simp add: stamping_env_def table_env_def)
  have now: "clock stamping_env n = 5000 + int n" for n
    by (simp add: stamping_env_def table_env_def)
  have run: "?run = (Inr (HTMLResponse close_window_page),
        callback_world\<lparr> http_log := [exchange_request ''c0de''],
          redis := ((redis callback_world)(''hubspot_credentials:o1:u1''
                       \<mapsto> (stored_tokens_text, Some 3600)))
                     (''hubspot_state:o1:u1'' := None) \<rparr>)"
    by (simp add: example_callback_run(1) [OF loads(1)] exchange_code_answered [OF answer]
        dumps callback_world_state)
  let ?w1 = "snd ?run"
  have got: "get_value_redis (''hubspot_credentials:'' @ ''o1'' @ '':'' @ ''u1'') ?w1
             = Some stored_tokens_text"
    by (simp add: run get_value_redis_def)
  have nonempty: "stored_tokens_text \<noteq> []"
    by (simp add: stored_tokens_text_def)
  have c: "map_of stored_tokens ''created_at'' = Some (JInt 1000)" "num_of (JInt 1000) = Some 1000"
    and e: "map_of stored_tokens ''expires_in'' = Some (JInt 1800)" "num_of (JInt 1800) = Some 1800"
    and rt: "map_of stored_tokens ''refresh_token'' = Some (JStr ''R1'')"
    by (simp_all add: stored_tokens_def)
  have nz: "(1000 :: int) \<noteq> 0" "(1800 :: int) \<noteq> 0"
    by simp_all
  have expired: "clock stamping_env (ticks ?w1) \<ge> 1000 + 1800"
    by (simp add: now)
  from expired_credentials_refreshed [OF got nonempty loads(2) c e nz expired rt answer]
  obtain renewed w' where
      "get_hubspot_credentials stamping_env ?w1 ''u1'' ''o1'' = (Inr (JObj renewed), w')"
      "http_log w' = http_log ?w1 @ [refresh_request (JStr ''R1'')]"
    by auto
  then have "http_log (snd (get_hubspot_credentials stamping_env ?w1 ''u1'' ''o1''))
             = [exchange_request ''c0de'', refresh_request (JStr ''R1'')]"
    by (simp add: run)
  then show ?thesis
    by (simp add: run)
qed

section \<open>Properties of the item fetcher\<close>

lemma fetch_objects_eq:
  "fetch_objects env w hdrs endpoint item_type =
     (case http env (length (http_log w)) (list_request endpoint hdrs) of
        HTTPError \<Rightarrow> Inl (HTTPException 400 FetchFailed)
      | BodyNotJson \<Rightarrow> Inl (HTTPException 400 InvalidCredentialsFormat)
      | Body data \<Rightarrow> normalize_results env item_type data,
      w\<lparr>http_log := http_log w @ [list_request endpoint hdrs]\<rparr>)"
  by (simp add: fetch_objects_def http_call_def split: http_outcome.splits)

text \<open>
  The loop returns a list exactly when every record normalizes, and the list is then
  the normalized records, one item for each record, in the order of the records.
\<close>

lemma normalize_all_Inr:
  "normalize_all env item_type xs = Inr its
   \<longleftrightarrow> map (\<lambda>x. create_integration_item_metadata_object env x item_type) xs = map Inr its"
proof (induction xs arbitrary: its)
  case Nil
  then show ?case by auto
next
  case (Cons x xs)
  show ?case
  proof (cases "create_integration_item_metadata_object env x item_type")
    case (Inl e)
    then show ?thesis by (cases its) auto
  next
    case (Inr it)
    show ?thesis
    proof (cases "normalize_all env item_type xs")
      case (Inl e)
      with Inr Cons [of "tl its"] show ?thesis
        by (cases its) auto
    next
      case r: (Inr its')
      with Inr Cons [of its'] Cons [of "tl its"] show ?thesis
        by (cases its) auto
    qed
  qed
qed

lemma normalize_results_Inr:
  "normalize_results env item_type data = Inr its
   \<longleftrightarrow> (\<exists>records. result_records data = Inr records
         \<and> map (\<lambda>x. create_integration_item_metadata_object env x item_type) records
             = map Inr its)"
  by (auto simp: normalize_results_def normalize_all_Inr split: sum.splits)

text \<open>
  A list of results that is three runs of results one after the other, and holds no
  exception, splits into the three lists of values.
\<close>

lemma map_Inr_append3:
  assumes "map Inr items = map f a @ map g b @ map h c"
  shows "\<exists>cs ms ds. items = cs @ ms @ ds
           \<and> map f a = map Inr cs \<and> map g b = map Inr ms \<and> map h c = map Inr ds"
proof -
  from assms obtain cs rest where 1: "items = cs @ rest" "map f a = map Inr cs"
      "map g b @ map h c = map Inr rest"
    by (metis map_eq_append_conv)
  from 1(3) obtain ms ds where "rest = ms @ ds" "map g b = map Inr ms" "map h c = map Inr ds"
    by (metis map_eq_append_conv)
  with 1 show ?thesis by blast
qed

text \<open>
  The three blocks of the fetcher in terms of the loop as a whole.
\<close>

lemma get_items_blocks:
  assumes "get_items_hubspot env w credentials = (r, w')"
  shows "HTTPError \<in> set (answers env w w') \<Longrightarrow> r = Inl (HTTPException 400 FetchFailed)"
    and "r = Inr items \<Longrightarrow>
            \<exists>hdrs contacts_data companies_data deals_data cs ms ds.
               http_log w' = http_log w @ [list_request contacts_endpoint hdrs,
                                            list_request companies_endpoint hdrs,
                                            list_request deals_endpoint hdrs]
             \<and> answers env w w' = [Body contacts_data, Body companies_data, Body deals_data]
             \<and> normalize_results env ''contact'' contacts_data = Inr cs
             \<and> normalize_results env ''company'' companies_data = Inr ms
             \<and> normalize_results env ''deal'' deals_data = Inr ds
             \<and> items = cs @ ms @ ds"
    and "json_loads env credentials = Some (JObj c)
         \<Longrightarrow> truthy (dict_get c ''access_token'')
         \<Longrightarrow> hdrs = [(''Authorization'', ''Bearer '' @ py_str env (dict_get c ''access_token'')),
                       (''Content-Type'', ''application/json'')]
         \<Longrightarrow> http env (length (http_log w)) (list_request contacts_endpoint hdrs)
                = Body contacts_data
         \<Longrightarrow> http env (length (http_log w) + 1) (list_request companies_endpoint hdrs)
                = Body companies_data
         \<Longrightarrow> http env (length (http_log w) + 2) (list_request deals_endpoint hdrs)
                = Body deals_data
         \<Longrightarrow> normalize_results env ''contact'' contacts_data = Inr cs
         \<Longrightarrow> normalize_results env ''company'' companies_data = Inr ms
         \<Longrightarrow> normalize_results env ''deal'' deals_data = Inr ds
         \<Longrightarrow> r = Inr (cs @ ms @ ds)"
  using assms
  by (auto simp: get_items_hubspot_def fetch_objects_eq answers_def Let_def py_get_def
      split: option.splits sum.splits http_outcome.splits if_splits prod.splits)

text \<open>
  Claim C6. In \<^verbatim>\<open>get_items_hubspot\<close>, if any of the requests to the three list
  endpoints fails, the call ends in the one error 400 of line 385 and returns no list.
  Whenever a list is returned, exactly the three requests were sent (contacts,
  companies, deals), all three were answered with a JSON body, and the list holds one
  item for each record of the \<^verbatim>\<open>results\<close> of the three bodies, namely what the
  normalizer makes of that record: those of all contacts in their order, then those of
  all companies, then those of all deals. And when the credentials hold an access
  token, the three endpoints answer and every one of their records normalizes, that
  list is returned.
\<close>

theorem fetch_all_or_nothing:
  assumes "get_items_hubspot env w credentials = (r, w')"
  shows "(HTTPError \<in> set (answers env w w') \<longrightarrow> r = Inl (HTTPException 400 FetchFailed))
       \<and> (\<forall>items. r = Inr items \<longrightarrow>
            (\<exists>hdrs contacts_data companies_data deals_data contacts companies deals.
               http_log w' = http_log w @ [list_request contacts_endpoint hdrs,
                                            list_request companies_endpoint hdrs,
                                            list_request deals_endpoint hdrs]
             \<and> answers env w w' = [Body contacts_data, Body companies_data, Body deals_data]
             \<and> result_records contacts_data = Inr contacts
             \<and> result_records companies_data = Inr companies
             \<and> result_records deals_data = Inr deals
             \<and> map Inr items
                 = map (\<lambda>x. create_integration_item_metadata_object env x ''contact'') contacts
                   @ map (\<lambda>x. create_integration_item_metadata_object env x ''company'') companies
                   @ map (\<lambda>x. create_integration_item_metadata_object env x ''deal'') deals))
       \<and> (\<forall>c hdrs contacts_data companies_data deals_data contacts companies deals items.
              json_loads env credentials = Some (JObj c)
            \<and> truthy (dict_get c ''access_token'')
            \<and> hdrs = [(''Authorization'', ''Bearer '' @ py_str env (dict_get c ''access_token'')),
                       (''Content-Type'', ''application/json'')]
            \<and> http env (length (http_log w)) (list_request contacts_endpoint hdrs)
                = Body contacts_data
            \<and> http env (length (http_log w) + 1) (list_request companies_endpoint hdrs)
                = Body companies_data
            \<and> http env (length (http_log w) + 2) (list_request deals_endpoint hdrs)
                = Body deals_data
            \<and> result_records contacts_data = Inr contacts
            \<and> result_records companies_data = Inr companies
            \<and> result_records deals_data = Inr deals
            \<and> map Inr items
                = map (\<lambda>x. create_integration_item_metadata_object env x ''contact'') contacts
                  @ map (\<lambda>x. create_integration_item_metadata_object env x ''company'') companies
                  @ map (\<lambda>x. create_integration_item_metadata_object env x ''deal'') deals
            \<longrightarrow> r = Inr items)"
proof (intro conjI allI impI)
  assume "HTTPError \<in> set (answers env w w')"
  then show "r = Inl (HTTPException 400 FetchFailed)"
    by (rule get_items_blocks(1) [OF assms])
next
  fix items
  assume "r = Inr items"
  from get_items_blocks(2) [OF assms this]
  obtain hdrs contacts_data companies_data deals_data cs ms ds where
      sent: "http_log w' = http_log w @ [list_request contacts_endpoint hdrs,
                                          list_request companies_endpoint hdrs,
                                          list_request deals_endpoint hdrs]"
        "answers env w w' = [Body contacts_data, Body companies_data, Body deals_data]"
    and n: "normalize_results env ''contact'' contacts_data = Inr cs"
        "normalize_results env ''company'' companies_data = Inr ms"
        "normalize_results env ''deal'' deals_data = Inr ds"
    and items: "items = cs @ ms @ ds"
    by blast
  from n obtain contacts companies deals where
      recs: "result_records contacts_data = Inr contacts"
        "result_records companies_data = Inr companies"
        "result_records deals_data = Inr deals"
    and maps: "map (\<lambda>x. create_integration_item_metadata_object env x ''contact'') contacts
               = map Inr cs"
        "map (\<lambda>x. create_integration_item_metadata_object env x ''company'') companies
               = map Inr ms"
        "map (\<lambda>x. create_integration_item_metadata_object env x ''deal'') deals
               = map Inr ds"
    unfolding normalize_results_Inr by blast
  have "map Inr items
        = map (\<lambda>x. create_integration_item_metadata_object env x ''contact'') contacts
          @ map (\<lambda>x. create_integration_item_metadata_object env x ''company'') companies
          @ map (\<lambda>x. create_integration_item_metadata_object env x ''deal'') deals"
    by (simp add: items maps)
  with sent recs
  show "\<exists>hdrs contacts_data companies_data deals_data contacts companies deals.
               http_log w' = http_log w @ [list_request contacts_endpoint hdrs,
                                            list_request companies_endpoint hdrs,
                                            list_request deals_endpoint hdrs]
             \<and> answers env w w' = [Body contacts_data, Body companies_data, Body deals_data]
             \<and> result_records contacts_data = Inr contacts
             \<and> result_records companies_data = Inr companies
             \<and> result_records deals_data = Inr deals
             \<and> map Inr items
                 = map (\<lambda>x. create_integration_item_metadata_object env x ''contact'') contacts
                   @ map (\<lambda>x. create_integration_item_metadata_object env x ''company'') companies
                   @ map (\<lambda>x. create_integration_item_metadata_object env x ''deal'') deals"
    by blast
next
  fix c hdrs contacts_data companies_data deals_data contacts companies deals items
  assume a: "json_loads env credentials = Some (JObj c)
            \<and> truthy (dict_get c ''access_token'')
            \<and> hdrs = [(''Authorization'', ''Bearer '' @ py_str env (dict_get c ''access_token'')),
                       (''Content-Type'', ''application/json'')]
            \<and> http env (length (http_log w)) (list_request contacts_endpoint hdrs)
                = Body contacts_data
            \<and> http env (length (http_log w) + 1) (list_request companies_endpoint hdrs)
                = Body companies_data
            \<and> http env (length (http_log w) + 2) (list_request deals_endpoint hdrs)
                = Body deals_data
            \<and> result_records contacts_data = Inr contacts
            \<and> result_records companies_data = Inr companies
            \<and> result_records deals_data = Inr deals
            \<and> map Inr items
                = map (\<lambda>x. create_integration_item_metadata_object env x ''contact'') contacts
                  @ map (\<lambda>x. create_integration_item_metadata_object env x ''company'') companies
                  @ map (\<lambda>x. create_integration_item_metadata_object env x ''deal'') deals"
  then have "map Inr items
                = map (\<lambda>x. create_integration_item_metadata_object env x ''contact'') contacts
                  @ map (\<lambda>x. create_integration_item_metadata_object env x ''company'') companies
                  @ map (\<lambda>x. create_integration_item_metadata_object env x ''deal'') deals"
    by simp
  from map_Inr_append3 [OF this] obtain cs ms ds where
      items: "items = cs @ ms @ ds"
    and cs: "map (\<lambda>x. create_integration_item_metadata_object env x ''contact'') contacts
             = map Inr cs"
    and ms: "map (\<lambda>x. create_integration_item_metadata_object env x ''company'') companies
             = map Inr ms"
    and ds: "map (\<lambda>x. create_integration_item_metadata_object env x ''deal'') deals
             = map Inr ds"
    by blast
  have n: "normalize_results env ''contact'' contacts_data = Inr cs"
      "normalize_results env ''company'' companies_data = Inr ms"
      "normalize_results env ''deal'' deals_data = Inr ds"
    unfolding normalize_results_Inr using a cs ms ds by blast+
  from a have given: "json_loads env credentials = Some (JObj c)"
      "truthy (dict_get c ''access_token'')"
      "hdrs = [(''Authorization'', ''Bearer '' @ py_str env (dict_get c ''access_token'')),
               (''Content-Type'', ''application/json'')]"
      "http env (length (http_log w)) (list_request contacts_endpoint hdrs) = Body contacts_data"
      "http env (length (http_log w) + 1) (list_request companies_endpoint hdrs)
       = Body companies_data"
      "http env (length (http_log w) + 2) (list_request deals_endpoint hdrs) = Body deals_data"
    by blast+
  have "r = Inr (cs @ ms @ ds)"
    by (rule get_items_blocks(3) [OF assms given n])
  then show "r = Inr items"
    by (simp add: items)
qed

lemmas crm_defs =
  crm_env_def table_env_def crm_server_def crm_credentials_text_def cache_world_def
  contacts_endpoint_def companies_endpoint_def deals_endpoint_def list_request_def

lemmas normalizer_defs =
  create_integration_item_metadata_object_def display_name_of_def type_fields_def
  dict_get_def dict_get_default_def py_str_def parse_hubspot_datetime_def
  strip_def py_isspace_def py_isspace2_def py_isspace3_def

lemma crm_records:
  "result_records crm_contacts = Inr crm_contact_records"
  "result_records crm_companies = Inr crm_company_records"
  "result_records crm_deals = Inr crm_deal_records"
  by (simp_all add: result_records_def py_get_default_def py_iter_def dict_get_default_def
      crm_contacts_def crm_companies_def crm_deals_def)

lemma crm_normalized:
  "map (\<lambda>x. create_integration_item_metadata_object (crm_env up) x ''contact'') crm_contact_records
   = map Inr [contact_item, second_contact_item]"
  "map (\<lambda>x. create_integration_item_metadata_object (crm_env up) x ''company'') crm_company_records
   = map Inr [company_item, second_company_item]"
  "map (\<lambda>x. create_integration_item_metadata_object (crm_env up) x ''deal'') crm_deal_records
   = map Inr [deal_item, second_deal_item]"
  by (simp_all add: normalizer_defs Let_def
      crm_contact_records_def crm_company_records_def crm_deal_records_def
      contact_item_def company_item_def deal_item_def
      second_contact_item_def second_company_item_def second_deal_item_def)

theorem fetch_all_or_nothing_witness:
  "fst (get_items_hubspot (crm_env False) (cache_world []) crm_credentials_text)
     = Inl (HTTPException 400 FetchFailed)
   \<and> fst (get_items_hubspot (crm_env True) (cache_world []) crm_credentials_text)
     = Inr [contact_item, second_contact_item, company_item, second_company_item,
            deal_item, second_deal_item]"
proof -
  let ?down = "get_items_hubspot (crm_env False) (cache_world []) crm_credentials_text"
  let ?up = "get_items_hubspot (crm_env True) (cache_world []) crm_credentials_text"
  have loads: "json_loads (crm_env b) crm_credentials_text = Some (JObj [(''access_token'', JStr ''A1'')])"
    for b
    by (simp add: crm_env_def table_env_def)
  have served_down:
      "http (crm_env False) n (list_request contacts_endpoint crm_headers) = Body crm_contacts"
      "http (crm_env False) n (list_request companies_endpoint crm_headers) = HTTPError"
    for n
    by (simp_all add: crm_defs)
  have contacts_down: "normalize_results (crm_env False) ''contact'' crm_contacts
                       = Inr [contact_item, second_contact_item]"
    unfolding normalize_results_Inr using crm_records(1) crm_normalized(1) by blast
  have log: "http_log (snd ?down) = http_log (cache_world [])
               @ [list_request contacts_endpoint crm_headers,
                  list_request companies_endpoint crm_headers]"
    by (simp add: get_items_hubspot_def loads py_get_def dict_get_def dict_get_default_def
        py_str_def fetch_objects_eq crm_headers_def [symmetric] Let_def served_down
        contacts_down)
  have "answers (crm_env False) (cache_world []) (snd ?down) = [Body crm_contacts, HTTPError]"
    by (simp add: answers_def log served_down)
  then have failed: "HTTPError \<in> set (answers (crm_env False) (cache_world []) (snd ?down))"
    by simp
  have "?down = (fst ?down, snd ?down)"
    by simp
  from fetch_all_or_nothing [OF this, THEN conjunct1, rule_format, OF failed]
  have down: "fst ?down = Inl (HTTPException 400 FetchFailed)" .
  have served:
      "http (crm_env True) (length (http_log (cache_world []))) (list_request contacts_endpoint crm_headers)
       = Body crm_contacts"
      "http (crm_env True) (length (http_log (cache_world [])) + 1) (list_request companies_endpoint crm_headers)
       = Body crm_companies"
      "http (crm_env True) (length (http_log (cache_world [])) + 2) (list_request deals_endpoint crm_headers)
       = Body crm_deals"
    by (simp_all add: crm_defs)
  have hdrs: "crm_headers = [(''Authorization'', ''Bearer '' @ py_str (crm_env True) (dict_get [(''access_token'', JStr ''A1'')] ''access_token'')),
                       (''Content-Type'', ''application/json'')]"
    and tok: "truthy (dict_get [(''access_token'', JStr ''A1'')] ''access_token'')"
    by (simp_all add: crm_headers_def dict_get_def dict_get_default_def py_str_def)
  have all_items: "map Inr [contact_item, second_contact_item, company_item, second_company_item,
                            deal_item, second_deal_item]
      = map (\<lambda>x. create_integration_item_metadata_object (crm_env True) x ''contact'') crm_contact_records
        @ map (\<lambda>x. create_integration_item_metadata_object (crm_env True) x ''company'') crm_company_records
        @ map (\<lambda>x. create_integration_item_metadata_object (crm_env True) x ''deal'') crm_deal_records"
    unfolding crm_normalized by simp
  have "?up = (fst ?up, snd ?up)"
    by simp
  from fetch_all_or_nothing [OF this, THEN conjunct2, THEN conjunct2, rule_format,
      of "[(''access_token'', JStr ''A1'')]" crm_headers crm_contacts crm_companies crm_deals
         crm_contact_records crm_company_records crm_deal_records
         "[contact_item, second_contact_item, company_item, second_company_item,
           deal_item, second_deal_item]"]
    loads tok hdrs served crm_records all_items
  have up: "fst ?up = Inr [contact_item, second_contact_item, company_item, second_company_item,
                           deal_item, second_deal_item]"
    by blast
  from down up show ?thesis
    by simp
qed

end
